theory Spec2Isabelle
  imports Main "HOL-Library.Word"
begin

unbundle bit_operations_syntax

section \<open>Machine types and collaborator results\<close>

type_synonym uint8_t = "8 word"
type_synonym uint16_t = "16 word"
type_synonym uint32_t = "32 word"
type_synonym uint64_t = "64 word"

text \<open>
  Status of the NBT library (\<open>ifx_status_t\<close>): success, or an encoded error.
  \<open>ifx_error_check\<close> is the library's test for an error status.
\<close>

datatype ifx_status_t = IFX_SUCCESS | IFX_ERROR nat

definition ifx_error_check :: "ifx_status_t \<Rightarrow> bool" where
  "ifx_error_check st = (st \<noteq> IFX_SUCCESS)"

text \<open>
  Result of the Bluetooth stack (\<open>wiced_result_t\<close>). The program only tests for
  \<open>WICED_BT_SUCCESS\<close> and only produces \<open>WICED_BT_ERROR\<close> itself; any other code
  the stack may hand back is \<open>WICED_BT_RESULT n\<close>.
\<close>

datatype wiced_result_t = WICED_BT_SUCCESS | WICED_BT_ERROR | WICED_BT_RESULT nat

datatype wiced_bt_gatt_status_t =
    WICED_BT_GATT_SUCCESS
  | WICED_BT_GATT_INVALID_HANDLE
  | WICED_BT_GATT_INVALID_OFFSET
  | WICED_BT_GATT_INVALID_ATTR_LEN
  | WICED_BT_GATT_ERROR
  | WICED_BT_GATT_STATUS nat
  | Gatt_status_of_result wiced_result_t
    \<comment> \<open>\<open>gatt_callback\<close> returns the result of \<open>wiced_bt_start_advertisements\<close> through its
        own return type\<close>

datatype wiced_bt_ble_advert_mode_t =
    BTM_BLE_ADVERT_OFF
  | BTM_BLE_ADVERT_UNDIRECTED_HIGH
  | BTM_BLE_ADVERT_MODE nat

datatype ifx_log_level = IFX_LOG_DEBUG | IFX_LOG_INFO | IFX_LOG_WARN | IFX_LOG_ERROR | IFX_LOG_FATAL

text \<open>
  A handler either returns, or stops in \<open>CY_ASSERT(0)\<close>.
\<close>

datatype 'a outcome = Returns 'a | CY_ASSERT_failed

section \<open>Data of \<open>bluetooth-handling.c\<close>\<close>

text \<open>
  \<open>wiced_bt_device_link_keys_t\<close>: the peer address and the remaining, opaque key bytes.
\<close>

record wiced_bt_device_link_keys_t =
  bd_addr :: "uint8_t list"
  key_data :: "uint8_t list"

text \<open>The global \<open>bonding_info\<close>.\<close>

record bonding_info_t =
  device_link_keys :: wiced_bt_device_link_keys_t
  bonded :: bool

text \<open>
  What the key-value store holds under a key. The program stores the raw bytes of three
  objects; each is kept here as the object itself.
\<close>

datatype blob =
    Bonding_blob bonding_info_t
  | Cccd_blob uint16_t
  | Identity_keys_blob "uint8_t list"

text \<open>
  The value arrays of the generated GATT database. Two are named by the program;
  \<open>attribute->p_data\<close> points to one of them.
\<close>

datatype gatt_array = App_hids_report | App_hids_report_client_char_config | App_array nat

text \<open>\<open>gatt_db_lookup_table_t\<close>, one row of \<open>app_gatt_db_ext_attr_tbl\<close>.\<close>

record gatt_db_lookup_table_t =
  handle :: uint16_t
  max_len :: uint16_t
  cur_len :: uint16_t
  p_data :: gatt_array

text \<open>
  \<open>wiced_bt_smp_sc_local_oob_t\<close>, the payload of the local OOB data notification:
  the public key used and the random value the stack generated.
\<close>

record wiced_bt_smp_sc_local_oob_t =
  public_key_used_x :: "uint8_t list"
  public_key_used_y :: "uint8_t list"
  randomizer :: "uint8_t list"

section \<open>Calls to collaborators\<close>

text \<open>
  Every call the program makes to a collaborator (tag transport, wireless stack, key-value
  store, logger, scheduler) is recorded, in order, with its arguments.
\<close>

datatype call =
    Nbt_write_file nat "uint8_t list"
      \<comment> \<open>\<open>nbt_write_file(&nbt, NBT_FILEID_NDEF, offset, data, length)\<close>\<close>
  | Ifx_logger_log ifx_log_level string
  | Wiced_bt_start_advertisements wiced_bt_ble_advert_mode_t
  | Wiced_bt_dev_delete_bonded_device "uint8_t list"
  | Wiced_bt_ble_address_resolution_list_clear_and_disable
  | Wiced_bt_dev_add_device_to_address_resolution_db wiced_bt_device_link_keys_t
  | Wiced_bt_set_local_bdaddr "uint8_t list"
  | Wiced_bt_set_pairable_mode
  | Wiced_bt_ble_set_raw_advertisement_data
  | Wiced_bt_gatt_register
  | Wiced_bt_gatt_db_init
  | Wiced_bt_smp_create_local_sc_oob_data "uint8_t list"
  | Wiced_bt_ble_security_grant "uint8_t list"
  | Wiced_bt_gatt_server_send_notification uint16_t uint16_t "uint8_t list"
      \<comment> \<open>connection id, attribute handle, value\<close>
  | Wiced_bt_gatt_server_send_error_rsp uint16_t uint16_t wiced_bt_gatt_status_t
  | Wiced_bt_gatt_server_send_write_rsp uint16_t uint16_t
  | Wiced_bt_gatt_server_send_read_handle_rsp uint16_t "uint8_t list"
  | Mtb_kvstore_write string blob
  | Mtb_kvstore_read string
  | VTaskDelay_ms nat

section \<open>Program state\<close>

text \<open>
  The globals of \<open>main.c\<close> and \<open>bluetooth-handling.c\<close>, the key-value store, the two
  pieces of stack state the program drives (advertising mode, address-resolution list),
  and the record of collaborator calls.
\<close>

record state =
  CONNECTION_HANDOVER_MESSAGE :: "uint8_t list"
  elapsed_periods :: uint32_t
  press_start :: uint32_t
  bonding_info :: bonding_info_t
  cccd :: uint16_t
  connection_id :: uint16_t
  local_identity_keys :: "uint8_t list"
  app_gatt_db_ext_attr_tbl :: "gatt_db_lookup_table_t list"
  gatt_arrays :: "gatt_array \<Rightarrow> uint8_t list"
  data_storage :: "string \<rightharpoonup> blob"
  advertising :: wiced_bt_ble_advert_mode_t
  resolution_list :: "wiced_bt_device_link_keys_t list"
  calls :: "call list"

text \<open>
  Constants of headers and generated files the program uses by name.
\<close>

record config =
  cy_bt_device_address :: "uint8_t list"
  CY_UNIQUE_ID_DIE_WAFER_Pos :: nat
  CY_UNIQUE_ID_DIE_X_Pos :: nat
  CY_UNIQUE_ID_DIE_Y_Pos :: nat
  GATT_CLIENT_CONFIG_NOTIFICATION :: uint16_t
  HDLD_HIDS_REPORT_CLIENT_CHAR_CONFIG :: uint16_t
  HDLC_HIDS_REPORT_VALUE :: uint16_t
  app_hids_report_len :: uint16_t
  sizeof_key_data :: nat
  sizeof_wiced_bt_local_identity_keys_t :: nat

text \<open>
  What the collaborators answer. Each result is a function of the call's arguments, so
  that any outcome the program tests for can be supplied. The crypto backend (mbedTLS)
  is described by the return code of each of its four steps, as a function of the key
  and the message fed so far, and by the bytes \<open>mbedtls_cipher_cmac_finish\<close> writes.
  \<open>uninitialised_m\<close> is the content of the local array \<open>m\<close> before the program
  writes to it.
\<close>

record env =
  nbt_write_file_status :: "nat \<Rightarrow> uint8_t list \<Rightarrow> ifx_status_t"
  wiced_bt_start_advertisements_result :: "wiced_bt_ble_advert_mode_t \<Rightarrow> wiced_result_t"
  wiced_bt_dev_delete_bonded_device_result :: "uint8_t list \<Rightarrow> wiced_result_t"
  wiced_bt_ble_address_resolution_list_clear_and_disable_result :: wiced_result_t
  wiced_bt_dev_add_device_to_address_resolution_db_result :: wiced_result_t
  wiced_bt_set_local_bdaddr_result :: "uint8_t list \<Rightarrow> wiced_result_t"
  wiced_bt_ble_set_raw_advertisement_data_result :: wiced_result_t
  wiced_bt_gatt_register_status :: wiced_bt_gatt_status_t
  wiced_bt_gatt_db_init_status :: wiced_bt_gatt_status_t
  wiced_bt_smp_create_local_sc_oob_data_result :: bool
  wiced_bt_gatt_server_send_write_rsp_status :: wiced_bt_gatt_status_t
  wiced_bt_gatt_server_send_read_handle_rsp_status :: wiced_bt_gatt_status_t
  mtb_kvstore_write_success :: "string \<Rightarrow> blob \<Rightarrow> bool"
  mtb_kvstore_read_success :: "string \<Rightarrow> bool"
  mtb_kvstore_read_size_success :: "string \<Rightarrow> bool"
  Cy_SysLib_GetUniqueId :: uint64_t
  mbedtls_cipher_setup :: int
  mbedtls_cipher_cmac_starts :: "uint8_t list \<Rightarrow> nat \<Rightarrow> int"
  mbedtls_cipher_cmac_update :: "uint8_t list \<Rightarrow> uint8_t list \<Rightarrow> int"
  mbedtls_cipher_cmac_finish :: "uint8_t list \<Rightarrow> uint8_t list \<Rightarrow> int \<times> uint8_t list"
  uninitialised_m :: "uint8_t list"

definition record_call :: "call \<Rightarrow> state \<Rightarrow> state" where
  "record_call c s = s\<lparr>calls := calls s @ [c]\<rparr>"

definition ifx_logger_log :: "ifx_log_level \<Rightarrow> string \<Rightarrow> state \<Rightarrow> state" where
  "ifx_logger_log level message s = record_call (Ifx_logger_log level message) s"

text \<open>
  \<open>memcpy(dst + off, src, n)\<close> on arrays: \<open>n\<close> bytes of \<open>src\<close> replace the bytes of
  \<open>dst\<close> from \<open>off\<close> on. Every use in the program is on arrays of fixed size that
  hold the range.
\<close>

definition memcpy :: "uint8_t list \<Rightarrow> nat \<Rightarrow> uint8_t list \<Rightarrow> nat \<Rightarrow> uint8_t list" where
  "memcpy dst off src n = take off dst @ take n src @ drop (off + n) dst"

section \<open>The handover message (\<open>main.c\<close>)\<close>

text \<open>
  The initial content of the array \<open>CONNECTION_HANDOVER_MESSAGE\<close>: NDEF length and
  record header, record type name, then the payload with its placeholder fields.
\<close>

definition CONNECTION_HANDOVER_MESSAGE_skeleton :: "uint8_t list" where
  "CONNECTION_HANDOVER_MESSAGE_skeleton =
    [0x00, 0x23 + 0x4E,
     0xD2,
     0x20,
     0x4E,
     0x61, 0x70, 0x70, 0x6C, 0x69, 0x63, 0x61, 0x74, 0x69, 0x6F, 0x6E, 0x2F, 0x76, 0x6E, 0x64, 0x2E,
     0x62, 0x6C, 0x75, 0x65, 0x74, 0x6F, 0x6F, 0x74, 0x68, 0x2E, 0x6C, 0x65, 0x2E, 0x6F, 0x6F, 0x62,
     0x08, 0x1B, 0xFF, 0xFF, 0xFF, 0xFF, 0xFF, 0xFF, 0x00,
     0x02, 0x1C, 0x00,
     0x04, 0x09, 0x4E, 0x42, 0x54,
     0x03, 0x19, 0xC2, 0x03,
     0x11, 0x10, 0x00, 0x00, 0x00, 0x00, 0x00, 0x00, 0x00, 0x00, 0x00, 0x00, 0x00, 0x00, 0x00, 0x00, 0x00, 0x00,
     0x11, 0x22, 0xFF, 0xFF, 0xFF, 0xFF, 0xFF, 0xFF, 0xFF, 0xFF, 0xFF, 0xFF, 0xFF, 0xFF, 0xFF, 0xFF, 0xFF, 0xFF,
     0x11, 0x23, 0xFF, 0xFF, 0xFF, 0xFF, 0xFF, 0xFF, 0xFF, 0xFF, 0xFF, 0xFF, 0xFF, 0xFF, 0xFF, 0xFF, 0xFF, 0xFF,
     0x02, 0x01, 0x06]"

definition CONNECTION_HANDOVER_MESSAGE_MAC_OFFSET :: nat where
  "CONNECTION_HANDOVER_MESSAGE_MAC_OFFSET = 39"

definition CONNECTION_HANDOVER_MESSAGE_CONFIRMATION_OFFSET :: nat where
  "CONNECTION_HANDOVER_MESSAGE_CONFIRMATION_OFFSET = 78"

definition CONNECTION_HANDOVER_MESSAGE_RANDOM_OFFSET :: nat where
  "CONNECTION_HANDOVER_MESSAGE_RANDOM_OFFSET = 96"

text \<open>\<open>sizeof(wiced_bt_device_address_t)\<close>: a device address is six bytes.\<close>

definition sizeof_wiced_bt_device_address_t :: nat where
  "sizeof_wiced_bt_device_address_t = 6"

text \<open>
  \<open>nbt_write_file(&nbt, NBT_FILEID_NDEF, offset, CONNECTION_HANDOVER_MESSAGE + offset, n)\<close>:
  the bytes handed to the tag transport are the \<open>n\<close> bytes of the message from
  \<open>offset\<close> on.
\<close>

definition nbt_write_file :: "env \<Rightarrow> nat \<Rightarrow> nat \<Rightarrow> state \<Rightarrow> ifx_status_t \<times> state" where
  "nbt_write_file e offset n s =
    (let data = take n (drop offset (CONNECTION_HANDOVER_MESSAGE s))
     in (nbt_write_file_status e offset data, record_call (Nbt_write_file offset data) s))"

definition callback_mac_address_changed :: "env \<Rightarrow> uint8_t list \<Rightarrow> state \<Rightarrow> ifx_status_t \<times> state" where
  "callback_mac_address_changed e mac s =
    (let s1 = s\<lparr>CONNECTION_HANDOVER_MESSAGE :=
                 fold (\<lambda>i m. m[CONNECTION_HANDOVER_MESSAGE_MAC_OFFSET + i :=
                                 mac ! (sizeof_wiced_bt_device_address_t - 1 - i)])
                      [0 ..< sizeof_wiced_bt_device_address_t]
                      (CONNECTION_HANDOVER_MESSAGE s)\<rparr>
     in nbt_write_file e CONNECTION_HANDOVER_MESSAGE_MAC_OFFSET sizeof_wiced_bt_device_address_t s1)"

definition callback_sc_confirmation_value_changed ::
  "env \<Rightarrow> uint8_t list \<Rightarrow> state \<Rightarrow> ifx_status_t \<times> state" where
  "callback_sc_confirmation_value_changed e confirmation s =
    (let s1 = s\<lparr>CONNECTION_HANDOVER_MESSAGE :=
                 memcpy (CONNECTION_HANDOVER_MESSAGE s)
                        CONNECTION_HANDOVER_MESSAGE_CONFIRMATION_OFFSET confirmation 0x10\<rparr>
     in nbt_write_file e CONNECTION_HANDOVER_MESSAGE_CONFIRMATION_OFFSET 0x10 s1)"

definition callback_sc_random_value_changed ::
  "env \<Rightarrow> uint8_t list \<Rightarrow> state \<Rightarrow> ifx_status_t \<times> state" where
  "callback_sc_random_value_changed e random s =
    (let s1 = s\<lparr>CONNECTION_HANDOVER_MESSAGE :=
                 memcpy (CONNECTION_HANDOVER_MESSAGE s)
                        CONNECTION_HANDOVER_MESSAGE_RANDOM_OFFSET random 0x10\<rparr>
     in nbt_write_file e CONNECTION_HANDOVER_MESSAGE_RANDOM_OFFSET 0x10 s1)"

section \<open>Commands of \<open>bluetooth-handling.c\<close>\<close>

text \<open>
  Modelled from the spec: the wireless stack, a collaborator outside the repository. The
  specification lists its commands (start and stop advertising, clear the resolution list,
  add a peer to it) and says that their return codes are success or failure only. A
  command is recorded, the stack's answer is the environment's, and the stack state the
  command drives (advertising mode, resolution list) changes when the answer is success
  and stays as it is otherwise.
\<close>

definition wiced_bt_start_advertisements ::
  "env \<Rightarrow> wiced_bt_ble_advert_mode_t \<Rightarrow> state \<Rightarrow> wiced_result_t \<times> state" where
  "wiced_bt_start_advertisements e mode s =
    (let r = wiced_bt_start_advertisements_result e mode;
         s1 = record_call (Wiced_bt_start_advertisements mode) s
     in (r, if r = WICED_BT_SUCCESS then s1\<lparr>advertising := mode\<rparr> else s1))"

definition wiced_bt_ble_address_resolution_list_clear_and_disable ::
  "env \<Rightarrow> state \<Rightarrow> wiced_result_t \<times> state" where
  "wiced_bt_ble_address_resolution_list_clear_and_disable e s =
    (let r = wiced_bt_ble_address_resolution_list_clear_and_disable_result e;
         s1 = record_call Wiced_bt_ble_address_resolution_list_clear_and_disable s
     in (r, if r = WICED_BT_SUCCESS then s1\<lparr>resolution_list := []\<rparr> else s1))"

definition wiced_bt_dev_add_device_to_address_resolution_db ::
  "env \<Rightarrow> wiced_bt_device_link_keys_t \<Rightarrow> state \<Rightarrow> wiced_result_t \<times> state" where
  "wiced_bt_dev_add_device_to_address_resolution_db e k s =
    (let r = wiced_bt_dev_add_device_to_address_resolution_db_result e;
         s1 = record_call (Wiced_bt_dev_add_device_to_address_resolution_db k) s
     in (r, if r = WICED_BT_SUCCESS then s1\<lparr>resolution_list := k # resolution_list s1\<rparr> else s1))"

text \<open>
  Modelled from the spec: the key-value store, a collaborator outside the repository, with
  \<open>read(key) -> Option<bytes>\<close> and \<open>write(key, bytes) -> Result\<close>. A write that
  succeeds replaces the value under the key, a write that fails leaves the store as it is;
  a read succeeds when the store answers and holds the key.
\<close>

definition mtb_kvstore_write :: "env \<Rightarrow> string \<Rightarrow> blob \<Rightarrow> state \<Rightarrow> bool \<times> state" where
  "mtb_kvstore_write e k b s =
    (let ok = mtb_kvstore_write_success e k b;
         s1 = record_call (Mtb_kvstore_write k b) s
     in (ok, if ok then s1\<lparr>data_storage := (data_storage s1)(k \<mapsto> b)\<rparr> else s1))"

definition mtb_kvstore_read :: "env \<Rightarrow> string \<Rightarrow> state \<Rightarrow> blob option \<times> state" where
  "mtb_kvstore_read e k s =
    ((if mtb_kvstore_read_success e k then data_storage s k else None),
     record_call (Mtb_kvstore_read k) s)"

definition ble_gatt_send_hid_update :: "config \<Rightarrow> state \<Rightarrow> state" where
  "ble_gatt_send_hid_update cfg s =
    (if (ucast (gatt_arrays s App_hids_report_client_char_config ! 0)
           AND GATT_CLIENT_CONFIG_NOTIFICATION cfg) \<noteq> 0
     then
       let s1 = s\<lparr>gatt_arrays := (gatt_arrays s)
                     (App_hids_report := (gatt_arrays s App_hids_report)[0 := 0x01])\<rparr>;
           s2 = record_call (Wiced_bt_gatt_server_send_notification (connection_id s1)
                   (HDLC_HIDS_REPORT_VALUE cfg)
                   (take (unat (app_hids_report_len cfg)) (gatt_arrays s1 App_hids_report))) s1;
           s3 = record_call (VTaskDelay_ms 30) s2;
           s4 = s3\<lparr>gatt_arrays := (gatt_arrays s3)
                     (App_hids_report := (gatt_arrays s3 App_hids_report)[0 := 0x00])\<rparr>
       in record_call (Wiced_bt_gatt_server_send_notification (connection_id s4)
                   (HDLC_HIDS_REPORT_VALUE cfg)
                   (take (unat (app_hids_report_len cfg)) (gatt_arrays s4 App_hids_report))) s4
     else s)"

text \<open>\<open>memset(&bonding_info.device_link_keys, 0x00, sizeof(...))\<close>: every byte becomes zero.\<close>

definition memset_device_link_keys :: "wiced_bt_device_link_keys_t \<Rightarrow> wiced_bt_device_link_keys_t" where
  "memset_device_link_keys k =
    \<lparr>bd_addr = replicate (length (bd_addr k)) 0x00, key_data = replicate (length (key_data k)) 0x00\<rparr>"

definition ble_clear_bonding_info :: "env \<Rightarrow> state \<Rightarrow> state" where
  "ble_clear_bonding_info e s =
    (case wiced_bt_start_advertisements e BTM_BLE_ADVERT_OFF s of (r0, s0) \<Rightarrow>
     if r0 \<noteq> WICED_BT_SUCCESS
     then ifx_logger_log IFX_LOG_ERROR ''Could not stop Bluetooth advertisement'' s0
     else
       let s4 =
         (if bonded (bonding_info s0)
          then
            let s1 = record_call (Wiced_bt_dev_delete_bonded_device
                        (bd_addr (device_link_keys (bonding_info s0)))) s0;
                s2 = (if wiced_bt_dev_delete_bonded_device_result e
                           (bd_addr (device_link_keys (bonding_info s0))) \<noteq> WICED_BT_SUCCESS
                      then ifx_logger_log IFX_LOG_WARN
                             ''Could not clear bond data for Bluetooth stack'' s1
                      else s1);
                s3 = s2\<lparr>bonding_info :=
                          \<lparr>device_link_keys = memset_device_link_keys (device_link_keys (bonding_info s2)),
                           bonded = False\<rparr>\<rparr>
            in (case mtb_kvstore_write e ''bonding'' (Bonding_blob (bonding_info s3)) s3 of (ok, s3') \<Rightarrow>
                if \<not> ok
                then ifx_logger_log IFX_LOG_WARN
                       ''Could not clear bond data for Bluetooth stack in persistent storage'' s3'
                else s3')
          else s0)
       in (case wiced_bt_ble_address_resolution_list_clear_and_disable e s4 of (r5, s5) \<Rightarrow>
           let s6 = (if r5 \<noteq> WICED_BT_SUCCESS
                     then ifx_logger_log IFX_LOG_WARN ''Could clear local Bluetooth resolution list'' s5
                     else s5)
           in (case wiced_bt_start_advertisements e BTM_BLE_ADVERT_UNDIRECTED_HIGH s6 of (r7, s7) \<Rightarrow>
               if r7 \<noteq> WICED_BT_SUCCESS
               then ifx_logger_log IFX_LOG_WARN ''Could re-enable Bluetooth advertisement'' s7
               else s7)))"

section \<open>\<open>gatt_callback\<close>\<close>

text \<open>
  \<open>handle2attr\<close> walks the table from the first row and returns the first row whose
  handle matches (here: its index, since the caller writes through the pointer), or
  \<open>NULL\<close>.
\<close>

fun handle2attr_loop :: "nat \<Rightarrow> gatt_db_lookup_table_t list \<Rightarrow> uint16_t \<Rightarrow> nat option" where
  "handle2attr_loop i [] h = None"
| "handle2attr_loop i (a # rest) h = (if h = handle a then Some i else handle2attr_loop (i + 1) rest h)"

definition handle2attr :: "state \<Rightarrow> uint16_t \<Rightarrow> nat option" where
  "handle2attr s h = handle2attr_loop 0 (app_gatt_db_ext_attr_tbl s) h"

text \<open>
  The GATT events that touch the program's globals: the connection status event, and
  attribute requests to read (\<open>GATT_REQ_READ\<close>, \<open>GATT_REQ_READ_BLOB\<close>) or to write
  (\<open>GATT_REQ_WRITE\<close>, \<open>GATT_CMD_WRITE\<close>). A read carries connection id, handle, offset
  and requested length; a write carries connection id, handle, \<open>val_len\<close> and \<open>p_val\<close>.
  \<open>GATT_OTHER_EVT\<close> stands for the events that are not attribute requests; the program
  answers them with success and leaves its globals alone. Attribute requests with other
  opcodes (read by type, MTU, confirmations) are left out.
\<close>

datatype wiced_bt_gatt_evt =
    GATT_CONNECTION_STATUS_EVT bool uint16_t
  | GATT_REQ_READ uint16_t uint16_t uint16_t uint16_t
  | GATT_REQ_WRITE uint16_t uint16_t uint16_t "uint8_t list"
  | GATT_OTHER_EVT

definition gatt_req_write ::
  "config \<Rightarrow> env \<Rightarrow> uint16_t \<Rightarrow> uint16_t \<Rightarrow> uint16_t \<Rightarrow> uint8_t list \<Rightarrow> state
     \<Rightarrow> wiced_bt_gatt_status_t \<times> state" where
  "gatt_req_write cfg e conn h val_len p_val s =
    (case handle2attr s h of
       None \<Rightarrow>
         (WICED_BT_GATT_INVALID_HANDLE,
          record_call (Wiced_bt_gatt_server_send_error_rsp conn h WICED_BT_GATT_INVALID_HANDLE) s)
     | Some i \<Rightarrow>
         let attribute = app_gatt_db_ext_attr_tbl s ! i in
         if val_len > max_len attribute then (WICED_BT_GATT_INVALID_ATTR_LEN, s)
         else
           let s1 = s\<lparr>app_gatt_db_ext_attr_tbl :=
                        (app_gatt_db_ext_attr_tbl s)[i := attribute\<lparr>cur_len := val_len\<rparr>],
                      gatt_arrays := (gatt_arrays s)
                        (p_data attribute :=
                           memcpy (gatt_arrays s (p_data attribute)) 0 p_val (unat val_len))\<rparr>;
               d = gatt_arrays s1 (p_data attribute);
               s3 = (if handle attribute = HDLD_HIDS_REPORT_CLIENT_CHAR_CONFIG cfg \<and> val_len \<ge> 2
                     then
                       let s2 = s1\<lparr>cccd := push_bit 8 (ucast (d ! 1)) OR ucast (d ! 0)\<rparr>
                       in (case mtb_kvstore_write e ''cccd'' (Cccd_blob (cccd s2)) s2 of (ok, s2') \<Rightarrow>
                           if \<not> ok
                           then ifx_logger_log IFX_LOG_WARN
                                  ''Could not update CCCD value in persistent storage - ignored'' s2'
                           else s2')
                     else s1)
           in (wiced_bt_gatt_server_send_write_rsp_status e,
               record_call (Wiced_bt_gatt_server_send_write_rsp conn h) s3))"

definition gatt_req_read ::
  "env \<Rightarrow> uint16_t \<Rightarrow> uint16_t \<Rightarrow> uint16_t \<Rightarrow> uint16_t \<Rightarrow> state \<Rightarrow> wiced_bt_gatt_status_t \<times> state" where
  "gatt_req_read e conn h offset len_requested s =
    (case handle2attr s h of
       None \<Rightarrow>
         (WICED_BT_GATT_INVALID_HANDLE,
          record_call (Wiced_bt_gatt_server_send_error_rsp conn h WICED_BT_GATT_INVALID_HANDLE) s)
     | Some i \<Rightarrow>
         let attribute = app_gatt_db_ext_attr_tbl s ! i in
         if offset \<ge> cur_len attribute
         then (WICED_BT_GATT_INVALID_OFFSET,
               record_call (Wiced_bt_gatt_server_send_error_rsp conn h WICED_BT_GATT_INVALID_OFFSET) s)
         else
           let len = min len_requested (cur_len attribute - offset);
               response = take (unat len) (drop (unat offset) (gatt_arrays s (p_data attribute)))
           in (wiced_bt_gatt_server_send_read_handle_rsp_status e,
               record_call (Wiced_bt_gatt_server_send_read_handle_rsp conn response) s))"

fun gatt_callback :: "config \<Rightarrow> env \<Rightarrow> wiced_bt_gatt_evt \<Rightarrow> state \<Rightarrow> wiced_bt_gatt_status_t \<times> state" where
  "gatt_callback cfg e (GATT_CONNECTION_STATUS_EVT connected conn) s =
    (if connected then (WICED_BT_GATT_SUCCESS, s\<lparr>connection_id := conn\<rparr>)
     else (case wiced_bt_start_advertisements e BTM_BLE_ADVERT_UNDIRECTED_HIGH (s\<lparr>connection_id := 0x0000\<rparr>)
           of (r, s1) \<Rightarrow> (Gatt_status_of_result r, s1)))"
| "gatt_callback cfg e (GATT_REQ_READ conn h offset len_requested) s =
    gatt_req_read e conn h offset len_requested s"
| "gatt_callback cfg e (GATT_REQ_WRITE conn h val_len p_val) s =
    gatt_req_write cfg e conn h val_len p_val s"
| "gatt_callback cfg e GATT_OTHER_EVT s = (WICED_BT_GATT_SUCCESS, s)"

section \<open>\<open>ble_callback\<close>\<close>

text \<open>
  The management events with the payload the program reads: the enabled status, the new
  advertising state, link keys, identity keys, a peer address, the local OOB data.
\<close>

datatype wiced_bt_management_evt =
    BTM_ENABLED_EVT wiced_result_t
  | BTM_PAIRING_IO_CAPABILITIES_BLE_REQUEST_EVT
  | BTM_PAIRING_COMPLETE_EVT
  | BTM_BLE_ADVERT_STATE_CHANGED_EVT wiced_bt_ble_advert_mode_t
  | BTM_PAIRED_DEVICE_LINK_KEYS_UPDATE_EVT wiced_bt_device_link_keys_t
  | BTM_PAIRED_DEVICE_LINK_KEYS_REQUEST_EVT
  | BTM_LOCAL_IDENTITY_KEYS_UPDATE_EVT "uint8_t list"
  | BTM_LOCAL_IDENTITY_KEYS_REQUEST_EVT
  | BTM_ENCRYPTION_STATUS_EVT "uint8_t list"
  | BTM_SMP_SC_LOCAL_OOB_DATA_NOTIFICATION_EVT wiced_bt_smp_sc_local_oob_t
  | BTM_SECURITY_REQUEST_EVT "uint8_t list"
  | BTM_OTHER_EVT

text \<open>
  What a handler writes back into \<open>event_data\<close>: nothing, the fixed pairing
  capabilities, or the link keys of the bonded device.
\<close>

datatype event_data_out =
    No_event_data
  | Pairing_io_capabilities_ble_request
  | Paired_device_link_keys_request wiced_bt_device_link_keys_t

type_synonym ble_callback_result = "wiced_result_t outcome \<times> event_data_out \<times> state"

text \<open>
  The handler of \<open>BTM_ENABLED_EVT\<close> is long; its model follows the three parts the source
  marks by comments. The first part, in \<open>ble_callback_enabled\<close> itself, sets the address
  and writes it to the handover message. The second loads the previous bonding
  information. The third configures the stack, asks it for the local OOB data and starts
  advertising.
\<close>

definition load_previous_bonding_information :: "env \<Rightarrow> state \<Rightarrow> state" where
  "load_previous_bonding_information e s2 =
    (case mtb_kvstore_read e ''bonding'' s2 of
       (Some (Bonding_blob b), s3) \<Rightarrow>
         let s3' = s3\<lparr>bonding_info := b\<rparr> in
         if bonded (bonding_info s3')
         then
           (case wiced_bt_dev_add_device_to_address_resolution_db e
                   (device_link_keys (bonding_info s3')) s3' of (r, s4) \<Rightarrow>
            (case mtb_kvstore_read e ''cccd'' s4 of
               (Some (Cccd_blob c), s4') \<Rightarrow> s4'\<lparr>cccd := c\<rparr>
             | (_, s4') \<Rightarrow> s4'))
         else s3'
     | (_, s3) \<Rightarrow> s3)"

definition configure_and_generate_oob_data :: "env \<Rightarrow> uint8_t list \<Rightarrow> state \<Rightarrow> ble_callback_result" where
  "configure_and_generate_oob_data e mac_address s5 =
    (let s6 = record_call Wiced_bt_ble_set_raw_advertisement_data
                (record_call Wiced_bt_set_pairable_mode s5)
     in
     if wiced_bt_ble_set_raw_advertisement_data_result e \<noteq> WICED_BT_SUCCESS
     then (Returns WICED_BT_ERROR, No_event_data, s6)
     else
       let s7 = record_call Wiced_bt_gatt_register s6 in
       if wiced_bt_gatt_register_status e \<noteq> WICED_BT_GATT_SUCCESS
       then (Returns WICED_BT_ERROR, No_event_data, s7)
       else
         let s8 = record_call Wiced_bt_gatt_db_init s7 in
         if wiced_bt_gatt_db_init_status e \<noteq> WICED_BT_GATT_SUCCESS
         then (Returns WICED_BT_ERROR, No_event_data, s8)
         else
           let s9 = record_call (Wiced_bt_smp_create_local_sc_oob_data mac_address) s8 in
           if \<not> wiced_bt_smp_create_local_sc_oob_data_result e
           then (CY_ASSERT_failed, No_event_data, s9)
           else
             (case wiced_bt_start_advertisements e BTM_BLE_ADVERT_UNDIRECTED_HIGH s9 of
                (r, s10) \<Rightarrow> (Returns r, No_event_data, s10)))"

definition ble_callback_enabled :: "config \<Rightarrow> env \<Rightarrow> wiced_result_t \<Rightarrow> state \<Rightarrow> ble_callback_result" where
  "ble_callback_enabled cfg e status s =
    (if status \<noteq> WICED_BT_SUCCESS then (Returns WICED_BT_ERROR, No_event_data, s)
     else
       let id = Cy_SysLib_GetUniqueId e;
           mac_address = (cy_bt_device_address cfg)
             [3 := ucast (drop_bit (CY_UNIQUE_ID_DIE_WAFER_Pos cfg) id AND 0xFF),
              4 := ucast (drop_bit (CY_UNIQUE_ID_DIE_X_Pos cfg) id AND 0xFF),
              5 := ucast (drop_bit (CY_UNIQUE_ID_DIE_Y_Pos cfg) id AND 0xFF)];
           s1 = record_call (Wiced_bt_set_local_bdaddr mac_address) s
       in
       if wiced_bt_set_local_bdaddr_result e mac_address \<noteq> WICED_BT_SUCCESS
       then (Returns WICED_BT_ERROR, No_event_data, s1)
       else
         (case callback_mac_address_changed e mac_address s1 of (st, s2) \<Rightarrow>
          if ifx_error_check st
          then (Returns WICED_BT_ERROR, No_event_data,
                ifx_logger_log IFX_LOG_FATAL ''Could not write BLE device address to NBT'' s2)
          else configure_and_generate_oob_data e mac_address
                 (load_previous_bonding_information e s2)))"

definition ble_callback_local_oob_data ::
  "env \<Rightarrow> wiced_bt_smp_sc_local_oob_t \<Rightarrow> state \<Rightarrow> ble_callback_result" where
  "ble_callback_local_oob_data e oob s =
    (let random_value = replicate 0x10 (0x00 :: uint8_t) in
     case callback_sc_random_value_changed e random_value s of (st, s1) \<Rightarrow>
     if ifx_error_check st
     then (Returns WICED_BT_ERROR, No_event_data,
           ifx_logger_log IFX_LOG_ERROR ''Could not update BLE SC random value on NBT'' s1)
     else
       let m = memcpy (memcpy (uninitialised_m e) 0 (public_key_used_x oob) 0x20)
                      0x20 (public_key_used_x oob) 0x20
       in
       if mbedtls_cipher_setup e \<noteq> 0
          \<or> mbedtls_cipher_cmac_starts e random_value (length random_value * 8) \<noteq> 0
          \<or> mbedtls_cipher_cmac_update e random_value m \<noteq> 0
       then (Returns WICED_BT_ERROR, No_event_data,
             ifx_logger_log IFX_LOG_ERROR
               ''Could not set up required MBED TLS cipher to calculate OOB confirmation value.'' s1)
       else
         (case mbedtls_cipher_cmac_finish e random_value m of (crypto_status, confirmation_value) \<Rightarrow>
          if crypto_status \<noteq> 0
          then (Returns WICED_BT_ERROR, No_event_data,
                ifx_logger_log IFX_LOG_ERROR ''Could not calculate required OOB confirmation value.'' s1)
          else
            (case callback_sc_confirmation_value_changed e confirmation_value s1 of (st2, s2) \<Rightarrow>
             if ifx_error_check st2
             then (Returns WICED_BT_ERROR, No_event_data,
                   ifx_logger_log IFX_LOG_ERROR ''Could not update BLE SC confirmation value on NBT'' s2)
             else (Returns WICED_BT_SUCCESS, No_event_data, s2))))"

fun ble_callback :: "config \<Rightarrow> env \<Rightarrow> wiced_bt_management_evt \<Rightarrow> state \<Rightarrow> ble_callback_result" where
  "ble_callback cfg e (BTM_ENABLED_EVT status) s = ble_callback_enabled cfg e status s"
| "ble_callback cfg e BTM_PAIRING_IO_CAPABILITIES_BLE_REQUEST_EVT s =
    (Returns WICED_BT_SUCCESS, Pairing_io_capabilities_ble_request, s)"
| "ble_callback cfg e BTM_PAIRING_COMPLETE_EVT s =
    (let s1 = s\<lparr>bonding_info := (bonding_info s)\<lparr>bonded := True\<rparr>\<rparr> in
     case mtb_kvstore_write e ''bonding'' (Bonding_blob (bonding_info s1)) s1 of (ok, s2) \<Rightarrow>
     if \<not> ok
     then (Returns WICED_BT_ERROR, No_event_data,
           ifx_logger_log IFX_LOG_ERROR ''Could not persistently store bonding information'' s2)
     else (Returns WICED_BT_SUCCESS, No_event_data, s2))"
| "ble_callback cfg e (BTM_BLE_ADVERT_STATE_CHANGED_EVT mode) s =
    (if mode = BTM_BLE_ADVERT_OFF \<and> connection_id s = 0x0000
     then (case wiced_bt_start_advertisements e BTM_BLE_ADVERT_UNDIRECTED_HIGH s of
             (r, s1) \<Rightarrow> (Returns r, No_event_data, s1))
     else (Returns WICED_BT_SUCCESS, No_event_data, s))"
| "ble_callback cfg e (BTM_PAIRED_DEVICE_LINK_KEYS_UPDATE_EVT k) s =
    (Returns WICED_BT_SUCCESS, No_event_data,
     s\<lparr>bonding_info := (bonding_info s)\<lparr>device_link_keys := k\<rparr>\<rparr>)"
| "ble_callback cfg e BTM_PAIRED_DEVICE_LINK_KEYS_REQUEST_EVT s =
    (if \<not> bonded (bonding_info s) then (Returns WICED_BT_ERROR, No_event_data, s)
     else (Returns WICED_BT_SUCCESS,
           Paired_device_link_keys_request (device_link_keys (bonding_info s)), s))"
| "ble_callback cfg e (BTM_LOCAL_IDENTITY_KEYS_UPDATE_EVT k) s =
    (let s1 = s\<lparr>local_identity_keys := k\<rparr> in
     case mtb_kvstore_write e ''identity_keys'' (Identity_keys_blob (local_identity_keys s1)) s1
     of (ok, s2) \<Rightarrow>
     if \<not> ok
     then (Returns WICED_BT_ERROR, No_event_data,
           ifx_logger_log IFX_LOG_ERROR ''Could not persistently store local identity keys'' s2)
     else (Returns WICED_BT_SUCCESS, No_event_data, s2))"
| "ble_callback cfg e BTM_LOCAL_IDENTITY_KEYS_REQUEST_EVT s =
    (let s1 = record_call (Mtb_kvstore_read ''identity_keys'') s in
     if mtb_kvstore_read_size_success e ''identity_keys'' \<and> data_storage s1 ''identity_keys'' \<noteq> None
     then (case mtb_kvstore_read e ''identity_keys'' s1 of
             (Some (Identity_keys_blob k), s2) \<Rightarrow>
               (Returns WICED_BT_SUCCESS, No_event_data, s2\<lparr>local_identity_keys := k\<rparr>)
           | (_, s2) \<Rightarrow> (Returns WICED_BT_ERROR, No_event_data, s2))
     else (Returns WICED_BT_ERROR, No_event_data, s1))"
| "ble_callback cfg e (BTM_ENCRYPTION_STATUS_EVT peer) s =
    (if bonded (bonding_info s)
        \<and> take sizeof_wiced_bt_device_address_t peer
            = take sizeof_wiced_bt_device_address_t (bd_addr (device_link_keys (bonding_info s)))
     then (Returns WICED_BT_SUCCESS, No_event_data,
           s\<lparr>gatt_arrays := (gatt_arrays s)
                (App_hids_report_client_char_config :=
                   (gatt_arrays s App_hids_report_client_char_config)[0 := ucast (cccd s)])\<rparr>)
     else (Returns WICED_BT_SUCCESS, No_event_data, s))"
| "ble_callback cfg e (BTM_SMP_SC_LOCAL_OOB_DATA_NOTIFICATION_EVT oob) s =
    ble_callback_local_oob_data e oob s"
| "ble_callback cfg e (BTM_SECURITY_REQUEST_EVT peer) s =
    (Returns WICED_BT_SUCCESS, No_event_data, record_call (Wiced_bt_ble_security_grant peer) s)"
| "ble_callback cfg e BTM_OTHER_EVT s = (Returns WICED_BT_SUCCESS, No_event_data, s)"

section \<open>The button task (\<open>main.c\<close>)\<close>

definition PERIOD_LENGTH_MS :: uint32_t where
  "PERIOD_LENGTH_MS = 100"

definition period_elapsed :: "state \<Rightarrow> state" where
  "period_elapsed s = s\<lparr>elapsed_periods := elapsed_periods s + 1\<rparr>"

text \<open>
  One turn of the loop of \<open>btn_task\<close>: \<open>taken\<close> says that \<open>xSemaphoreTake\<close> returned
  \<open>pdPASS\<close>, \<open>pressed\<close> that \<open>cyhal_gpio_read\<close> returned \<open>CYBSP_BTN_PRESSED\<close>.
  All arithmetic is on \<open>uint32_t\<close>.
\<close>

definition btn_task_turn :: "config \<Rightarrow> env \<Rightarrow> bool \<Rightarrow> bool \<Rightarrow> state \<Rightarrow> state" where
  "btn_task_turn cfg e taken pressed s =
    (if taken
     then
       if pressed then s\<lparr>press_start := elapsed_periods s\<rparr>
       else
         let press_duration = elapsed_periods s - press_start s in
         if press_duration * PERIOD_LENGTH_MS > 5000
         then ble_clear_bonding_info e s
         else ble_gatt_send_hid_update cfg s
     else s)"

text \<open>
  The timer callback and the button task share the processor: a run is a sequence of timer
  periods and of wake-ups of the button task with the level read from the button.
\<close>

datatype task_event = Period_elapsed | Btn_irq bool

fun btn_task :: "config \<Rightarrow> env \<Rightarrow> task_event list \<Rightarrow> state \<Rightarrow> state" where
  "btn_task cfg e [] s = s"
| "btn_task cfg e (Period_elapsed # evs) s = btn_task cfg e evs (period_elapsed s)"
| "btn_task cfg e (Btn_irq pressed # evs) s = btn_task cfg e evs (btn_task_turn cfg e True pressed s)"

section \<open>Start of the program\<close>

text \<open>
  The globals as the C start-up leaves them: the message holds its skeleton, every other
  global is zero. The generated GATT database and the content of the key-value store are
  given; the stack is not advertising and its resolution list is empty.
\<close>

definition initial_state ::
  "config \<Rightarrow> gatt_db_lookup_table_t list \<Rightarrow> (gatt_array \<Rightarrow> uint8_t list) \<Rightarrow> (string \<rightharpoonup> blob) \<Rightarrow> state" where
  "initial_state cfg tbl arrays store =
    \<lparr>CONNECTION_HANDOVER_MESSAGE = CONNECTION_HANDOVER_MESSAGE_skeleton,
     elapsed_periods = 0,
     press_start = 0,
     bonding_info =
       \<lparr>device_link_keys =
          \<lparr>bd_addr = replicate sizeof_wiced_bt_device_address_t 0x00,
           key_data = replicate (sizeof_key_data cfg) 0x00\<rparr>,
        bonded = False\<rparr>,
     cccd = 0,
     connection_id = 0x0000,
     local_identity_keys = replicate (sizeof_wiced_bt_local_identity_keys_t cfg) 0x00,
     app_gatt_db_ext_attr_tbl = tbl,
     gatt_arrays = arrays,
     data_storage = store,
     advertising = BTM_BLE_ADVERT_OFF,
     resolution_list = [],
     calls = []\<rparr>"

section \<open>Notions used to state the properties\<close>

text \<open>The fields of the handover message, read back from a state.\<close>

definition mac_field :: "state \<Rightarrow> uint8_t list" where
  "mac_field s =
    take sizeof_wiced_bt_device_address_t
      (drop CONNECTION_HANDOVER_MESSAGE_MAC_OFFSET (CONNECTION_HANDOVER_MESSAGE s))"

definition confirmation_field :: "state \<Rightarrow> uint8_t list" where
  "confirmation_field s =
    take 16 (drop CONNECTION_HANDOVER_MESSAGE_CONFIRMATION_OFFSET (CONNECTION_HANDOVER_MESSAGE s))"

definition random_field :: "state \<Rightarrow> uint8_t list" where
  "random_field s =
    take 16 (drop CONNECTION_HANDOVER_MESSAGE_RANDOM_OFFSET (CONNECTION_HANDOVER_MESSAGE s))"

text \<open>The calls a step added to the record: those of \<open>s'\<close> after the calls of \<open>s\<close>.\<close>

definition new_calls :: "state \<Rightarrow> state \<Rightarrow> call list" where
  "new_calls s s' = drop (length (calls s)) (calls s')"

text \<open>
  \<open>first_then a b cs\<close>: the call \<open>b\<close> occurs in \<open>cs\<close>, and \<open>a\<close> occurs before its first
  occurrence.
\<close>

fun first_then :: "call \<Rightarrow> call \<Rightarrow> call list \<Rightarrow> bool" where
  "first_then a b [] = False"
| "first_then a b (c # cs) =
    (if c = b then False else if c = a then b \<in> set cs else first_then a b cs)"

text \<open>
  The end state of a bonding reset: bonding record in RAM, content of the store,
  address-resolution list, advertising mode.
\<close>

definition end_state ::
  "state \<Rightarrow> bonding_info_t \<times> (string \<rightharpoonup> blob) \<times> wiced_bt_device_link_keys_t list \<times> wiced_bt_ble_advert_mode_t" where
  "end_state s = (bonding_info s, data_storage s, resolution_list s, advertising s)"

text \<open>The log entries among a list of calls.\<close>

fun is_log :: "call \<Rightarrow> bool" where
  "is_log (Ifx_logger_log level message) = True"
| "is_log c = False"

text \<open>The writes to the tag transport among a list of calls.\<close>

fun is_nbt_write :: "call \<Rightarrow> bool" where
  "is_nbt_write (Nbt_write_file offset d) = True"
| "is_nbt_write c = False"

text \<open>
  An environment in which every collaborator accepts every call. The tag that the crypto
  backend returns is left open: \<open>tag\<close> gives it from key and message.
\<close>

definition accepting_env :: "(uint8_t list \<Rightarrow> uint8_t list \<Rightarrow> uint8_t list) \<Rightarrow> env" where
  "accepting_env tag =
    \<lparr>nbt_write_file_status = (\<lambda>offset d. IFX_SUCCESS),
     wiced_bt_start_advertisements_result = (\<lambda>mode. WICED_BT_SUCCESS),
     wiced_bt_dev_delete_bonded_device_result = (\<lambda>a. WICED_BT_SUCCESS),
     wiced_bt_ble_address_resolution_list_clear_and_disable_result = WICED_BT_SUCCESS,
     wiced_bt_dev_add_device_to_address_resolution_db_result = WICED_BT_SUCCESS,
     wiced_bt_set_local_bdaddr_result = (\<lambda>a. WICED_BT_SUCCESS),
     wiced_bt_ble_set_raw_advertisement_data_result = WICED_BT_SUCCESS,
     wiced_bt_gatt_register_status = WICED_BT_GATT_SUCCESS,
     wiced_bt_gatt_db_init_status = WICED_BT_GATT_SUCCESS,
     wiced_bt_smp_create_local_sc_oob_data_result = True,
     wiced_bt_gatt_server_send_write_rsp_status = WICED_BT_GATT_SUCCESS,
     wiced_bt_gatt_server_send_read_handle_rsp_status = WICED_BT_GATT_SUCCESS,
     mtb_kvstore_write_success = (\<lambda>k b. True),
     mtb_kvstore_read_success = (\<lambda>k. True),
     mtb_kvstore_read_size_success = (\<lambda>k. True),
     Cy_SysLib_GetUniqueId = 0x0000A1B2C3D4E5F6,
     mbedtls_cipher_setup = 0,
     mbedtls_cipher_cmac_starts = (\<lambda>k bits. 0),
     mbedtls_cipher_cmac_update = (\<lambda>k m. 0),
     mbedtls_cipher_cmac_finish = (\<lambda>k m. (0, tag k m)),
     uninitialised_m = replicate 65 0xAA\<rparr>"

text \<open>
  A device configuration for concrete runs: a GATT database with the HID report value and
  its client characteristic configuration descriptor (two bytes).
\<close>

definition example_config :: config where
  "example_config =
    \<lparr>cy_bt_device_address = [0x00, 0xA0, 0x50, 0x00, 0x00, 0x00],
     CY_UNIQUE_ID_DIE_WAFER_Pos = 24,
     CY_UNIQUE_ID_DIE_X_Pos = 32,
     CY_UNIQUE_ID_DIE_Y_Pos = 40,
     GATT_CLIENT_CONFIG_NOTIFICATION = 0x0001,
     HDLD_HIDS_REPORT_CLIENT_CHAR_CONFIG = 0x000F,
     HDLC_HIDS_REPORT_VALUE = 0x000E,
     app_hids_report_len = 1,
     sizeof_key_data = 4,
     sizeof_wiced_bt_local_identity_keys_t = 4\<rparr>"

definition example_tbl :: "gatt_db_lookup_table_t list" where
  "example_tbl =
    [\<lparr>handle = 0x000E, max_len = 1, cur_len = 1, p_data = App_hids_report\<rparr>,
     \<lparr>handle = 0x000F, max_len = 2, cur_len = 2, p_data = App_hids_report_client_char_config\<rparr>]"

definition example_arrays :: "gatt_array \<Rightarrow> uint8_t list" where
  "example_arrays a =
    (case a of App_hids_report \<Rightarrow> [0x00]
     | App_hids_report_client_char_config \<Rightarrow> [0x00, 0x00]
     | App_array n \<Rightarrow> [])"

definition example_state :: state where
  "example_state = initial_state example_config example_tbl example_arrays Map.empty"

text \<open>
  The local OOB data of scenario A: a public key whose x-coordinate is 32 bytes \<open>0x11\<close>,
  and the random value 16 bytes \<open>0x22\<close>.
\<close>

definition scenario_A_oob :: wiced_bt_smp_sc_local_oob_t where
  "scenario_A_oob =
    \<lparr>public_key_used_x = replicate 32 0x11,
     public_key_used_y = replicate 32 0x33,
     randomizer = replicate 16 0x22\<rparr>"

text \<open>
  A stand-in for the tag of the crypto backend in concrete runs: it shows what the backend
  was given, the length of the message followed by the first 15 bytes of the key. The
  general theorems hold for every backend.
\<close>

definition example_tag :: "uint8_t list \<Rightarrow> uint8_t list \<Rightarrow> uint8_t list" where
  "example_tag k m = of_nat (length m) # take 15 k"

text \<open>A crypto backend that runs out of memory when the MAC is started.\<close>

definition crypto_failing_env :: env where
  "crypto_failing_env = (accepting_env example_tag)\<lparr>mbedtls_cipher_cmac_starts := (\<lambda>k bits. - 0x6180)\<rparr>"

section \<open>Runs of the program\<close>

text \<open>
  The program runs as callbacks and tasks that take turns: the stack delivers a
  management event to \<open>ble_callback\<close> or a GATT event to \<open>gatt_callback\<close>, the timer
  calls \<open>period_elapsed\<close>, the button interrupt wakes \<open>btn_task\<close>, which reads the
  level of the button. Each turn meets its own answers of the collaborators. A failed
  \<open>CY_ASSERT\<close> stops the program: \<open>take_step\<close> says so, and \<open>run\<close> takes no step after
  it.
\<close>

datatype step =
    Management_evt env wiced_bt_management_evt
  | Gatt_evt env wiced_bt_gatt_evt
  | Timer_period
  | Button_wakeup env bool

fun take_step :: "config \<Rightarrow> step \<Rightarrow> state \<Rightarrow> bool \<times> state" where
  "take_step cfg (Management_evt e ev) s =
    (case ble_callback cfg e ev s of (r, out, s') \<Rightarrow> (r = CY_ASSERT_failed, s'))"
| "take_step cfg (Gatt_evt e ev) s = (False, snd (gatt_callback cfg e ev s))"
| "take_step cfg Timer_period s = (False, period_elapsed s)"
| "take_step cfg (Button_wakeup e pressed) s = (False, btn_task_turn cfg e True pressed s)"

fun run :: "config \<Rightarrow> step list \<Rightarrow> state \<Rightarrow> state" where
  "run cfg [] s = s"
| "run cfg (stp # rest) s =
    (case take_step cfg stp s of (stopped, s') \<Rightarrow> if stopped then s' else run cfg rest s')"

text \<open>The steps in which the stack reports that it is enabled.\<close>

fun is_enabled_evt :: "step \<Rightarrow> bool" where
  "is_enabled_evt (Management_evt e (BTM_ENABLED_EVT status)) = True"
| "is_enabled_evt stp = False"

text \<open>
  Two environments in which the stack gives the same answer, accepted or refused, to each
  of the three commands of a bonding reset.
\<close>

definition same_stack_answers :: "env \<Rightarrow> env \<Rightarrow> bool" where
  "same_stack_answers e1 e2 =
     ((wiced_bt_start_advertisements_result e1 BTM_BLE_ADVERT_OFF = WICED_BT_SUCCESS)
        = (wiced_bt_start_advertisements_result e2 BTM_BLE_ADVERT_OFF = WICED_BT_SUCCESS)
      \<and> (wiced_bt_ble_address_resolution_list_clear_and_disable_result e1 = WICED_BT_SUCCESS)
        = (wiced_bt_ble_address_resolution_list_clear_and_disable_result e2 = WICED_BT_SUCCESS)
      \<and> (wiced_bt_start_advertisements_result e1 BTM_BLE_ADVERT_UNDIRECTED_HIGH = WICED_BT_SUCCESS)
        = (wiced_bt_start_advertisements_result e2 BTM_BLE_ADVERT_UNDIRECTED_HIGH = WICED_BT_SUCCESS))"

text \<open>
  The stack accepts the three commands of a bonding reset: stop advertising, clear the
  resolution list, start advertising.
\<close>

definition stack_accepts_reset :: "env \<Rightarrow> bool" where
  "stack_accepts_reset e =
     (wiced_bt_start_advertisements_result e BTM_BLE_ADVERT_OFF = WICED_BT_SUCCESS
      \<and> wiced_bt_ble_address_resolution_list_clear_and_disable_result e = WICED_BT_SUCCESS
      \<and> wiced_bt_start_advertisements_result e BTM_BLE_ADVERT_UNDIRECTED_HIGH = WICED_BT_SUCCESS)"

text \<open>A stack that stops advertising on request and refuses to start it again.\<close>

definition readvertising_refused_env :: env where
  "readvertising_refused_env =
     (accepting_env example_tag)\<lparr>wiced_bt_start_advertisements_result :=
        (\<lambda>mode. if mode = BTM_BLE_ADVERT_OFF then WICED_BT_SUCCESS else WICED_BT_ERROR)\<rparr>"

text \<open>
  Link keys of a peer, and the state after the stack has reported them and the pairing has
  completed.
\<close>

definition example_link_keys :: wiced_bt_device_link_keys_t where
  "example_link_keys =
     \<lparr>bd_addr = [0x10, 0x20, 0x30, 0x40, 0x50, 0x60], key_data = [0xDE, 0xAD, 0xBE, 0xEF]\<rparr>"

definition bonded_state :: state where
  "bonded_state =
     snd (snd (ble_callback example_config (accepting_env example_tag) BTM_PAIRING_COMPLETE_EVT
       (snd (snd (ble_callback example_config (accepting_env example_tag)
          (BTM_PAIRED_DEVICE_LINK_KEYS_UPDATE_EVT example_link_keys) example_state)))))"

text \<open>
  The state after a peer has connected with connection id 1, has written \<open>01 00\<close> to the
  client characteristic configuration descriptor of the HID report, and has disconnected.
\<close>

definition disconnected_subscribed :: state where
  "disconnected_subscribed =
     snd (gatt_callback example_config (accepting_env example_tag) (GATT_CONNECTION_STATUS_EVT False 1)
       (snd (gatt_callback example_config (accepting_env example_tag)
               (GATT_REQ_WRITE 1 0x000F 2 [0x01, 0x00])
         (snd (gatt_callback example_config (accepting_env example_tag)
                 (GATT_CONNECTION_STATUS_EVT True 1) example_state)))))"

text \<open>
  The button was pressed at period 0 and is released at period 42949673, some seven weeks
  later.
\<close>

definition held_seven_weeks :: state where
  "held_seven_weeks = example_state\<lparr>press_start := 0, elapsed_periods := 42949673\<rparr>"

text \<open>
  A run of two steps: the stack reports that it is enabled, then delivers the local OOB data
  of scenario A.
\<close>

definition example_run :: "step list" where
  "example_run =
     [Management_evt (accepting_env example_tag) (BTM_ENABLED_EVT WICED_BT_SUCCESS),
      Management_evt (accepting_env example_tag)
        (BTM_SMP_SC_LOCAL_OOB_DATA_NOTIFICATION_EVT scenario_A_oob)]"

section \<open>Facts about the field writers\<close>

lemma memcpy_before:
  assumes "off + n \<le> length dst" and "k + j \<le> off"
  shows "take j (drop k (memcpy dst off src n)) = take j (drop k dst)"
proof -
  have "take j (drop k (take off dst @ take n src @ drop (off + n) dst)) = take j (drop k (take off dst))"
    using assms by simp
  also have "\<dots> = take j (take (off - k) (drop k dst))"
    by (simp add: drop_take)
  also have "\<dots> = take j (drop k dst)"
    using assms by (simp add: min_def)
  finally show ?thesis by (simp add: memcpy_def)
qed

lemma upt_address: "[0..<6] = [0, 1, 2, 3, 4, 5]"
  by (simp add: upt_rec)

lemma mac_loop:
  assumes "length mac = 6" and "length msg = 115"
  shows "fold (\<lambda>i m. m[CONNECTION_HANDOVER_MESSAGE_MAC_OFFSET + i :=
                        mac ! (sizeof_wiced_bt_device_address_t - 1 - i)])
              [0 ..< sizeof_wiced_bt_device_address_t] msg
         = take 39 msg @ rev mac @ drop 45 msg"
proof -
  obtain a b c d e f where mac: "mac = [a, b, c, d, e, f]"
    using assms(1) by (auto simp: length_Suc_conv eval_nat_numeral)
  show ?thesis
    using assms(2)
    unfolding CONNECTION_HANDOVER_MESSAGE_MAC_OFFSET_def sizeof_wiced_bt_device_address_t_def
    apply (simp add: upt_address mac)
    apply (rule nth_equalityI)
     apply simp
    apply (auto simp: nth_append nth_list_update nth_Cons')
    done
qed

lemma callback_mac_address_changed_eq:
  assumes "length mac = 6" and "length (CONNECTION_HANDOVER_MESSAGE s) = 115"
  shows "callback_mac_address_changed e mac s =
     (nbt_write_file_status e 39 (rev mac),
      s\<lparr>CONNECTION_HANDOVER_MESSAGE :=
           take 39 (CONNECTION_HANDOVER_MESSAGE s) @ rev mac @ drop 45 (CONNECTION_HANDOVER_MESSAGE s),
        calls := calls s @ [Nbt_write_file 39 (rev mac)]\<rparr>)"
  unfolding callback_mac_address_changed_def nbt_write_file_def Let_def mac_loop[OF assms]
  using assms
  by (simp add: record_call_def CONNECTION_HANDOVER_MESSAGE_MAC_OFFSET_def
      sizeof_wiced_bt_device_address_t_def)

lemma callback_sc_random_value_changed_eq:
  "callback_sc_random_value_changed e r s =
     (nbt_write_file_status e 96 (take 16 (drop 96 (memcpy (CONNECTION_HANDOVER_MESSAGE s) 96 r 16))),
      s\<lparr>CONNECTION_HANDOVER_MESSAGE := memcpy (CONNECTION_HANDOVER_MESSAGE s) 96 r 16,
        calls := calls s @
          [Nbt_write_file 96 (take 16 (drop 96 (memcpy (CONNECTION_HANDOVER_MESSAGE s) 96 r 16)))]\<rparr>)"
  by (simp add: callback_sc_random_value_changed_def nbt_write_file_def record_call_def Let_def
      CONNECTION_HANDOVER_MESSAGE_RANDOM_OFFSET_def)

lemma callback_sc_confirmation_value_changed_eq:
  "callback_sc_confirmation_value_changed e c s =
     (nbt_write_file_status e 78 (take 16 (drop 78 (memcpy (CONNECTION_HANDOVER_MESSAGE s) 78 c 16))),
      s\<lparr>CONNECTION_HANDOVER_MESSAGE := memcpy (CONNECTION_HANDOVER_MESSAGE s) 78 c 16,
        calls := calls s @
          [Nbt_write_file 78 (take 16 (drop 78 (memcpy (CONNECTION_HANDOVER_MESSAGE s) 78 c 16)))]\<rparr>)"
  by (simp add: callback_sc_confirmation_value_changed_def nbt_write_file_def record_call_def Let_def
      CONNECTION_HANDOVER_MESSAGE_CONFIRMATION_OFFSET_def)

lemma oob_m:
  assumes "length x = 32" and "length u = 65"
  shows "memcpy (memcpy u 0 x 0x20) 0x20 x 0x20 = x @ x @ [u ! 64]"
proof -
  have "drop 64 u = [u ! 64]"
    using assms(2) Cons_nth_drop_Suc[of 64 u] by simp
  then show ?thesis using assms by (simp add: memcpy_def)
qed

lemma replicate_16: "replicate 16 x = [x, x, x, x, x, x, x, x, x, x, x, x, x, x, x, x]"
  by (simp add: eval_nat_numeral)

lemma example_state_length: "length (CONNECTION_HANDOVER_MESSAGE example_state) = 115"
  by (simp add: example_state_def initial_state_def CONNECTION_HANDOVER_MESSAGE_skeleton_def)

section \<open>The device address in the handover message\<close>

text \<open>
  Claim C4. For every 6-byte address, \<open>callback_mac_address_changed\<close> leaves the bytes of
  the address in reversed order at offset 39 of the handover message; the 39 bytes before
  and the bytes from offset 45 on are unchanged, and the message keeps its length.
\<close>

theorem mac_address_written_reversed:
  assumes "length mac = 6" and "length (CONNECTION_HANDOVER_MESSAGE s) = 115"
  shows "mac_field (snd (callback_mac_address_changed e mac s)) = rev mac
       \<and> take 39 (CONNECTION_HANDOVER_MESSAGE (snd (callback_mac_address_changed e mac s)))
           = take 39 (CONNECTION_HANDOVER_MESSAGE s)
       \<and> drop 45 (CONNECTION_HANDOVER_MESSAGE (snd (callback_mac_address_changed e mac s)))
           = drop 45 (CONNECTION_HANDOVER_MESSAGE s)
       \<and> length (CONNECTION_HANDOVER_MESSAGE (snd (callback_mac_address_changed e mac s))) = 115"
  using assms
  by (simp add: callback_mac_address_changed_eq mac_field_def
      CONNECTION_HANDOVER_MESSAGE_MAC_OFFSET_def sizeof_wiced_bt_device_address_t_def)

theorem mac_address_written_reversed_witness:
  "length [0x00, 0xA0, 0x50, 0x11, 0x22, 0x33 :: uint8_t] = 6
   \<and> length (CONNECTION_HANDOVER_MESSAGE example_state) = 115
   \<and> mac_field (snd (callback_mac_address_changed (accepting_env example_tag)
                        [0x00, 0xA0, 0x50, 0x11, 0x22, 0x33] example_state))
       = [0x33, 0x22, 0x11, 0x50, 0xA0, 0x00]
   \<and> drop 45 (CONNECTION_HANDOVER_MESSAGE (snd (callback_mac_address_changed (accepting_env example_tag)
                        [0x00, 0xA0, 0x50, 0x11, 0x22, 0x33] example_state)))
       = drop 45 CONNECTION_HANDOVER_MESSAGE_skeleton"
  using mac_address_written_reversed[of "[0x00, 0xA0, 0x50, 0x11, 0x22, 0x33]" example_state
          "accepting_env example_tag"]
  by (simp add: example_state_def initial_state_def CONNECTION_HANDOVER_MESSAGE_skeleton_def)

section \<open>What is pushed to the tag transport\<close>

text \<open>
  Claim C5, as the program has it. Each of the three field updates makes exactly one call
  to the tag transport, and that call carries the bytes of the updated field only, as they
  stand in the message after the update: 6 bytes at offset 39 for the address, 16 bytes at
  offset 78 for the confirmation value, 16 bytes at offset 96 for the random value. The
  whole image of the message is not part of the call.
\<close>

theorem field_update_pushes_field_range:
  assumes "length mac = 6" and "length confirmation = 16" and "length random = 16"
      and "length (CONNECTION_HANDOVER_MESSAGE s) = 115"
  shows "new_calls s (snd (callback_mac_address_changed e mac s))
           = [Nbt_write_file CONNECTION_HANDOVER_MESSAGE_MAC_OFFSET
                (mac_field (snd (callback_mac_address_changed e mac s)))]
       \<and> new_calls s (snd (callback_sc_confirmation_value_changed e confirmation s))
           = [Nbt_write_file CONNECTION_HANDOVER_MESSAGE_CONFIRMATION_OFFSET
                (confirmation_field (snd (callback_sc_confirmation_value_changed e confirmation s)))]
       \<and> new_calls s (snd (callback_sc_random_value_changed e random s))
           = [Nbt_write_file CONNECTION_HANDOVER_MESSAGE_RANDOM_OFFSET
                (random_field (snd (callback_sc_random_value_changed e random s)))]
       \<and> length (mac_field (snd (callback_mac_address_changed e mac s))) = 6
       \<and> length (confirmation_field (snd (callback_sc_confirmation_value_changed e confirmation s))) = 16
       \<and> length (random_field (snd (callback_sc_random_value_changed e random s))) = 16"
  using assms
  by (simp add: callback_mac_address_changed_eq callback_sc_confirmation_value_changed_eq
      callback_sc_random_value_changed_eq new_calls_def mac_field_def confirmation_field_def
      random_field_def CONNECTION_HANDOVER_MESSAGE_MAC_OFFSET_def
      CONNECTION_HANDOVER_MESSAGE_CONFIRMATION_OFFSET_def CONNECTION_HANDOVER_MESSAGE_RANDOM_OFFSET_def
      sizeof_wiced_bt_device_address_t_def memcpy_def)

theorem field_update_pushes_field_range_witness:
  "length [0x00, 0xA0, 0x50, 0x11, 0x22, 0x33 :: uint8_t] = 6
   \<and> length (replicate 16 (0x5A :: uint8_t)) = 16
   \<and> length (replicate 16 (0x00 :: uint8_t)) = 16
   \<and> length (CONNECTION_HANDOVER_MESSAGE example_state) = 115
   \<and> new_calls example_state (snd (callback_mac_address_changed (accepting_env example_tag)
         [0x00, 0xA0, 0x50, 0x11, 0x22, 0x33] example_state))
       = [Nbt_write_file 39 [0x33, 0x22, 0x11, 0x50, 0xA0, 0x00]]
   \<and> new_calls example_state (snd (callback_sc_confirmation_value_changed (accepting_env example_tag)
         (replicate 16 0x5A) example_state))
       = [Nbt_write_file 78 (replicate 16 0x5A)]
   \<and> new_calls example_state (snd (callback_sc_random_value_changed (accepting_env example_tag)
         (replicate 16 0x00) example_state))
       = [Nbt_write_file 96 (replicate 16 0x00)]"
proof -
  have m: "mac_field (snd (callback_mac_address_changed (accepting_env example_tag)
             [0x00, 0xA0, 0x50, 0x11, 0x22, 0x33] example_state)) = [0x33, 0x22, 0x11, 0x50, 0xA0, 0x00]"
    using example_state_length
    by (simp add: callback_mac_address_changed_eq mac_field_def
        CONNECTION_HANDOVER_MESSAGE_MAC_OFFSET_def sizeof_wiced_bt_device_address_t_def)
  have c: "confirmation_field (snd (callback_sc_confirmation_value_changed (accepting_env example_tag)
             (replicate 16 0x5A) example_state)) = replicate 16 0x5A"
    using example_state_length
    by (simp add: callback_sc_confirmation_value_changed_eq confirmation_field_def memcpy_def
        CONNECTION_HANDOVER_MESSAGE_CONFIRMATION_OFFSET_def)
  have r: "random_field (snd (callback_sc_random_value_changed (accepting_env example_tag)
             (replicate 16 0x00) example_state)) = replicate 16 0x00"
    using example_state_length
    by (simp add: callback_sc_random_value_changed_eq random_field_def memcpy_def
        CONNECTION_HANDOVER_MESSAGE_RANDOM_OFFSET_def)
  show ?thesis
    using field_update_pushes_field_range[of "[0x00, 0xA0, 0x50, 0x11, 0x22, 0x33]"
            "replicate 16 0x5A" "replicate 16 0x00" example_state "accepting_env example_tag"]
          example_state_length
    by (simp add: m c r CONNECTION_HANDOVER_MESSAGE_MAC_OFFSET_def
        CONNECTION_HANDOVER_MESSAGE_CONFIRMATION_OFFSET_def CONNECTION_HANDOVER_MESSAGE_RANDOM_OFFSET_def)
qed

text \<open>
  Claim C5 as stated fails: after the address update on the initial message the one call
  to the tag transport carries the six address bytes at offset 39, not the 115-byte image
  of the message from offset 0.
\<close>

theorem address_push_is_not_whole_image:
  "new_calls example_state (snd (callback_mac_address_changed (accepting_env example_tag)
       [0x00, 0xA0, 0x50, 0x11, 0x22, 0x33] example_state))
     = [Nbt_write_file 39 [0x33, 0x22, 0x11, 0x50, 0xA0, 0x00]]
   \<and> length (CONNECTION_HANDOVER_MESSAGE (snd (callback_mac_address_changed (accepting_env example_tag)
       [0x00, 0xA0, 0x50, 0x11, 0x22, 0x33] example_state))) = 115
   \<and> new_calls example_state (snd (callback_mac_address_changed (accepting_env example_tag)
       [0x00, 0xA0, 0x50, 0x11, 0x22, 0x33] example_state))
     \<noteq> [Nbt_write_file 0 (CONNECTION_HANDOVER_MESSAGE (snd (callback_mac_address_changed
            (accepting_env example_tag) [0x00, 0xA0, 0x50, 0x11, 0x22, 0x33] example_state)))]"
  using example_state_length
  by (simp add: callback_mac_address_changed_eq new_calls_def)

section \<open>The local OOB data notification\<close>

text \<open>
  Claim C1, as the program has it. When the handler of the local OOB data notification
  returns success for an event with a 32-byte x-coordinate \<open>x\<close>, the random-value field of
  the message holds sixteen zero bytes (the program's fixed random value, whatever random
  value the event carries) and these were pushed to the tag transport at offset 96; the
  confirmation-value field holds the MAC the crypto backend returned for the all-zero
  128-bit key and the 65-byte message that starts with \<open>x\<close> followed by \<open>x\<close>, and it was
  pushed at offset 78. The last byte of the message is whatever the local array held.
  The same event with any other random value is processed in the same way.
\<close>

theorem oob_data_ready_success:
  assumes x: "length (public_key_used_x oob) = 32"
      and u: "length (uninitialised_m e) = 65"
      and len: "length (CONNECTION_HANDOVER_MESSAGE s) = 115"
      and tag: "length (snd (mbedtls_cipher_cmac_finish e (replicate 16 0)
                  (public_key_used_x oob @ public_key_used_x oob @ [uninitialised_m e ! 64]))) = 16"
      and ok: "fst (ble_callback cfg e (BTM_SMP_SC_LOCAL_OOB_DATA_NOTIFICATION_EVT oob) s)
                 = Returns WICED_BT_SUCCESS"
  shows "random_field (snd (snd (ble_callback cfg e (BTM_SMP_SC_LOCAL_OOB_DATA_NOTIFICATION_EVT oob) s)))
           = replicate 16 0
       \<and> confirmation_field (snd (snd (ble_callback cfg e (BTM_SMP_SC_LOCAL_OOB_DATA_NOTIFICATION_EVT oob) s)))
           = snd (mbedtls_cipher_cmac_finish e (replicate 16 0)
                  (public_key_used_x oob @ public_key_used_x oob @ [uninitialised_m e ! 64]))
       \<and> new_calls s (snd (snd (ble_callback cfg e (BTM_SMP_SC_LOCAL_OOB_DATA_NOTIFICATION_EVT oob) s)))
           = [Nbt_write_file CONNECTION_HANDOVER_MESSAGE_RANDOM_OFFSET (replicate 16 0),
              Nbt_write_file CONNECTION_HANDOVER_MESSAGE_CONFIRMATION_OFFSET
                (snd (mbedtls_cipher_cmac_finish e (replicate 16 0)
                  (public_key_used_x oob @ public_key_used_x oob @ [uninitialised_m e ! 64])))]
       \<and> ble_callback cfg e (BTM_SMP_SC_LOCAL_OOB_DATA_NOTIFICATION_EVT (oob\<lparr>randomizer := r\<rparr>)) s
           = ble_callback cfg e (BTM_SMP_SC_LOCAL_OOB_DATA_NOTIFICATION_EVT oob) s"
proof -
  let ?m = "public_key_used_x oob @ public_key_used_x oob @ [uninitialised_m e ! 64]"
  have m: "memcpy (memcpy (uninitialised_m e) 0 (public_key_used_x oob) 0x20) 0x20
             (public_key_used_x oob) 0x20 = ?m"
    using x u by (rule oob_m)
  obtain st c where f: "mbedtls_cipher_cmac_finish e (replicate 16 0) ?m = (st, c)"
    by (cases "mbedtls_cipher_cmac_finish e (replicate 16 0) ?m")
  have c: "length c = 16" using tag f by simp
  have run: "ble_callback_local_oob_data e oob s =
      (Returns WICED_BT_SUCCESS, No_event_data,
       snd (callback_sc_confirmation_value_changed e c
              (snd (callback_sc_random_value_changed e (replicate 16 0) s))))"
    using ok
    by (simp add: ble_callback_local_oob_data_def m f Let_def case_prod_beta split: if_splits)
  have same: "ble_callback_local_oob_data e (oob\<lparr>randomizer := r\<rparr>) s
                = ble_callback_local_oob_data e oob s"
    unfolding ble_callback_local_oob_data_def
    by (simp cong del: if_weak_cong cong: if_cong)
  show ?thesis
    using len c
    by (simp add: run f same callback_sc_random_value_changed_eq
        callback_sc_confirmation_value_changed_eq
        new_calls_def confirmation_field_def random_field_def
        CONNECTION_HANDOVER_MESSAGE_CONFIRMATION_OFFSET_def CONNECTION_HANDOVER_MESSAGE_RANDOM_OFFSET_def
        memcpy_def)
qed

lemma scenario_A_returns_success:
  "fst (ble_callback example_config (accepting_env example_tag)
          (BTM_SMP_SC_LOCAL_OOB_DATA_NOTIFICATION_EVT scenario_A_oob) example_state)
     = Returns WICED_BT_SUCCESS"
  using example_state_length
  by (simp add: ble_callback_local_oob_data_def callback_sc_random_value_changed_eq
      callback_sc_confirmation_value_changed_eq accepting_env_def example_tag_def scenario_A_oob_def
      ifx_error_check_def Let_def)

theorem oob_data_ready_success_witness:
  "length (public_key_used_x scenario_A_oob) = 32
   \<and> length (uninitialised_m (accepting_env example_tag)) = 65
   \<and> length (CONNECTION_HANDOVER_MESSAGE example_state) = 115
   \<and> fst (ble_callback example_config (accepting_env example_tag)
          (BTM_SMP_SC_LOCAL_OOB_DATA_NOTIFICATION_EVT scenario_A_oob) example_state)
        = Returns WICED_BT_SUCCESS
   \<and> random_field (snd (snd (ble_callback example_config (accepting_env example_tag)
          (BTM_SMP_SC_LOCAL_OOB_DATA_NOTIFICATION_EVT scenario_A_oob) example_state)))
        = replicate 16 0x00
   \<and> confirmation_field (snd (snd (ble_callback example_config (accepting_env example_tag)
          (BTM_SMP_SC_LOCAL_OOB_DATA_NOTIFICATION_EVT scenario_A_oob) example_state)))
        = example_tag (replicate 16 0x00) (replicate 32 0x11 @ replicate 32 0x11 @ [0xAA])
   \<and> new_calls example_state (snd (snd (ble_callback example_config (accepting_env example_tag)
          (BTM_SMP_SC_LOCAL_OOB_DATA_NOTIFICATION_EVT scenario_A_oob) example_state)))
        = [Nbt_write_file 96 (replicate 16 0x00),
           Nbt_write_file 78
             (example_tag (replicate 16 0x00) (replicate 32 0x11 @ replicate 32 0x11 @ [0xAA]))]"
proof -
  have x: "length (public_key_used_x scenario_A_oob) = 32"
    by (simp add: scenario_A_oob_def)
  have u: "length (uninitialised_m (accepting_env example_tag)) = 65"
    by (simp add: accepting_env_def)
  have t: "length (snd (mbedtls_cipher_cmac_finish (accepting_env example_tag) (replicate 16 0)
             (public_key_used_x scenario_A_oob @ public_key_used_x scenario_A_oob
                @ [uninitialised_m (accepting_env example_tag) ! 64]))) = 16"
    by (simp add: accepting_env_def example_tag_def)
  have u64: "uninitialised_m (accepting_env example_tag) ! 64 = 0xAA"
    by (simp add: accepting_env_def)
  show ?thesis
    using oob_data_ready_success[OF x u example_state_length t scenario_A_returns_success]
          x u example_state_length scenario_A_returns_success
    by (simp add: u64 CONNECTION_HANDOVER_MESSAGE_CONFIRMATION_OFFSET_def
          CONNECTION_HANDOVER_MESSAGE_RANDOM_OFFSET_def)
       (simp add: accepting_env_def scenario_A_oob_def)
qed

text \<open>
  Claim C1 as stated fails on scenario A: the event carries the random value sixteen times
  \<open>0x22\<close>, the handler returns success, and the random-value field holds sixteen zero
  bytes. The confirmation-value field holds what the backend returned for the all-zero key
  and a 65-byte message, not for the key \<open>0x22\<close>... and the 64-byte message.
\<close>

theorem scenario_A_random_field_is_zero:
  "fst (ble_callback example_config (accepting_env example_tag)
          (BTM_SMP_SC_LOCAL_OOB_DATA_NOTIFICATION_EVT scenario_A_oob) example_state)
     = Returns WICED_BT_SUCCESS
   \<and> randomizer scenario_A_oob = replicate 16 0x22
   \<and> random_field (snd (snd (ble_callback example_config (accepting_env example_tag)
          (BTM_SMP_SC_LOCAL_OOB_DATA_NOTIFICATION_EVT scenario_A_oob) example_state)))
       = replicate 16 0x00
   \<and> random_field (snd (snd (ble_callback example_config (accepting_env example_tag)
          (BTM_SMP_SC_LOCAL_OOB_DATA_NOTIFICATION_EVT scenario_A_oob) example_state)))
       \<noteq> randomizer scenario_A_oob
   \<and> confirmation_field (snd (snd (ble_callback example_config (accepting_env example_tag)
          (BTM_SMP_SC_LOCAL_OOB_DATA_NOTIFICATION_EVT scenario_A_oob) example_state)))
       = 0x41 # replicate 15 0x00
   \<and> example_tag (randomizer scenario_A_oob)
         (public_key_used_x scenario_A_oob @ public_key_used_x scenario_A_oob)
       = 0x40 # replicate 15 0x22"
  using example_state_length
  by (simp add: ble_callback_local_oob_data_def callback_sc_random_value_changed_eq
      callback_sc_confirmation_value_changed_eq accepting_env_def example_tag_def scenario_A_oob_def
      ifx_error_check_def random_field_def confirmation_field_def
      CONNECTION_HANDOVER_MESSAGE_RANDOM_OFFSET_def CONNECTION_HANDOVER_MESSAGE_CONFIRMATION_OFFSET_def
      memcpy_def Let_def)

text \<open>
  Claim C3. If the cipher set-up, the start of the MAC, its update or its finish returns a
  non-zero code, the handler of the local OOB data notification returns
  \<open>WICED_BT_ERROR\<close> (it returns; it does not stop in an assertion), the
  confirmation-value field of the message is what it was before, and nothing was pushed to
  the tag transport at the offset of the confirmation value.
\<close>

theorem crypto_failure_keeps_confirmation:
  assumes len: "length (CONNECTION_HANDOVER_MESSAGE s) = 115"
      and fail: "mbedtls_cipher_setup e \<noteq> 0
          \<or> mbedtls_cipher_cmac_starts e (replicate 16 0) 128 \<noteq> 0
          \<or> mbedtls_cipher_cmac_update e (replicate 16 0)
               (memcpy (memcpy (uninitialised_m e) 0 (public_key_used_x oob) 32) 32
                  (public_key_used_x oob) 32) \<noteq> 0
          \<or> fst (mbedtls_cipher_cmac_finish e (replicate 16 0)
               (memcpy (memcpy (uninitialised_m e) 0 (public_key_used_x oob) 32) 32
                  (public_key_used_x oob) 32)) \<noteq> 0"
  shows "fst (ble_callback cfg e (BTM_SMP_SC_LOCAL_OOB_DATA_NOTIFICATION_EVT oob) s)
           = Returns WICED_BT_ERROR
       \<and> confirmation_field (snd (snd (ble_callback cfg e (BTM_SMP_SC_LOCAL_OOB_DATA_NOTIFICATION_EVT oob) s)))
           = confirmation_field s
       \<and> (\<forall>d. Nbt_write_file CONNECTION_HANDOVER_MESSAGE_CONFIRMATION_OFFSET d
              \<notin> set (new_calls s (snd (snd
                   (ble_callback cfg e (BTM_SMP_SC_LOCAL_OOB_DATA_NOTIFICATION_EVT oob) s)))))"
proof -
  have keep: "take 16 (drop 78 (memcpy (CONNECTION_HANDOVER_MESSAGE s) 96 (replicate 16 0) 16))
                = take 16 (drop 78 (CONNECTION_HANDOVER_MESSAGE s))"
    using len by (simp add: memcpy_before)
  show ?thesis
    using fail keep
    by (auto simp: ble_callback_local_oob_data_def callback_sc_random_value_changed_eq
        ifx_logger_log_def record_call_def new_calls_def confirmation_field_def
        CONNECTION_HANDOVER_MESSAGE_CONFIRMATION_OFFSET_def Let_def
        split: prod.splits)
qed

theorem crypto_failure_keeps_confirmation_witness:
  "length (CONNECTION_HANDOVER_MESSAGE example_state) = 115
   \<and> mbedtls_cipher_cmac_starts crypto_failing_env (replicate 16 0) 128 \<noteq> 0
   \<and> fst (ble_callback example_config crypto_failing_env
            (BTM_SMP_SC_LOCAL_OOB_DATA_NOTIFICATION_EVT scenario_A_oob) example_state)
        = Returns WICED_BT_ERROR
   \<and> confirmation_field (snd (snd (ble_callback example_config crypto_failing_env
            (BTM_SMP_SC_LOCAL_OOB_DATA_NOTIFICATION_EVT scenario_A_oob) example_state)))
        = replicate 16 0xFF
   \<and> Nbt_write_file 78 (replicate 16 0xFF)
        \<notin> set (new_calls example_state (snd (snd (ble_callback example_config crypto_failing_env
            (BTM_SMP_SC_LOCAL_OOB_DATA_NOTIFICATION_EVT scenario_A_oob) example_state))))"
proof -
  have f: "mbedtls_cipher_cmac_starts crypto_failing_env (replicate 16 0) 128 \<noteq> 0"
    by (simp add: crypto_failing_env_def)
  have c: "confirmation_field example_state = replicate 16 0xFF"
    by (simp add: confirmation_field_def example_state_def initial_state_def replicate_16
        CONNECTION_HANDOVER_MESSAGE_skeleton_def CONNECTION_HANDOVER_MESSAGE_CONFIRMATION_OFFSET_def)
  show ?thesis
    using crypto_failure_keeps_confirmation[of example_state crypto_failing_env scenario_A_oob
            example_config] example_state_length f c
    by (simp add: CONNECTION_HANDOVER_MESSAGE_CONFIRMATION_OFFSET_def)
qed

section \<open>Order of the address push and the OOB request\<close>

lemma new_calls_trans:
  assumes "calls s1 = calls s0 @ new_calls s0 s1" and "calls s2 = calls s1 @ new_calls s1 s2"
  shows "new_calls s0 s2 = new_calls s0 s1 @ new_calls s1 s2"
proof -
  have "calls s2 = calls s0 @ (new_calls s0 s1 @ new_calls s1 s2)"
    using assms by (metis append.assoc)
  then have "drop (length (calls s0)) (calls s2) = new_calls s0 s1 @ new_calls s1 s2"
    by (metis append_eq_conv_conj)
  then show ?thesis by (simp only: new_calls_def)
qed

lemma new_calls_appended:
  assumes "calls s1 = calls s0 @ cs"
  shows "new_calls s0 s1 = cs" and "calls s1 = calls s0 @ new_calls s0 s1"
  using assms by (simp_all add: new_calls_def)

lemma load_previous_bonding_information_calls:
  "calls (load_previous_bonding_information e s)
     = calls s @ new_calls s (load_previous_bonding_information e s)
   \<and> CONNECTION_HANDOVER_MESSAGE (load_previous_bonding_information e s)
       = CONNECTION_HANDOVER_MESSAGE s
   \<and> Wiced_bt_smp_create_local_sc_oob_data m
       \<notin> set (new_calls s (load_previous_bonding_information e s))"
  by (auto simp: load_previous_bonding_information_def mtb_kvstore_read_def
      wiced_bt_dev_add_device_to_address_resolution_db_def record_call_def new_calls_def Let_def
      split: option.splits blob.splits)

lemma configure_and_generate_oob_data_calls:
  "calls (snd (snd (configure_and_generate_oob_data e mac s)))
     = calls s @ new_calls s (snd (snd (configure_and_generate_oob_data e mac s)))
   \<and> CONNECTION_HANDOVER_MESSAGE (snd (snd (configure_and_generate_oob_data e mac s)))
       = CONNECTION_HANDOVER_MESSAGE s
   \<and> (if Wiced_bt_smp_create_local_sc_oob_data m
            \<in> set (new_calls s (snd (snd (configure_and_generate_oob_data e mac s))))
       then m = mac else True)"
  by (auto simp: configure_and_generate_oob_data_def wiced_bt_start_advertisements_def
      record_call_def new_calls_def Let_def)

lemma first_then_occurs: "first_then a b cs \<Longrightarrow> b \<in> set cs"
  by (induction cs) (auto split: if_splits)

lemma first_then_append_left: "first_then a b cs \<Longrightarrow> first_then a b (cs @ new)"
  by (induction cs) (auto split: if_splits)

lemma first_then_append_right:
  "b \<notin> set cs \<Longrightarrow> a \<noteq> b \<Longrightarrow> first_then a b new \<Longrightarrow> first_then a b (cs @ new)"
  by (induction cs) (auto dest: first_then_occurs)

lemma mac_loop_long:
  assumes "length mac = 6" and "45 \<le> length msg"
  shows "fold (\<lambda>i m. m[CONNECTION_HANDOVER_MESSAGE_MAC_OFFSET + i :=
                        mac ! (sizeof_wiced_bt_device_address_t - 1 - i)])
              [0 ..< sizeof_wiced_bt_device_address_t] msg
         = take 39 msg @ rev mac @ drop 45 msg"
proof -
  obtain a b c d e f where mac: "mac = [a, b, c, d, e, f]"
    using assms(1) by (auto simp: length_Suc_conv eval_nat_numeral)
  show ?thesis
    using assms(2)
    unfolding CONNECTION_HANDOVER_MESSAGE_MAC_OFFSET_def sizeof_wiced_bt_device_address_t_def
    apply (simp add: upt_address mac)
    apply (rule nth_equalityI)
     apply simp
    apply (auto simp: nth_append nth_list_update nth_Cons')
    done
qed

lemma callback_mac_address_changed_long:
  assumes "length mac = 6" and "45 \<le> length (CONNECTION_HANDOVER_MESSAGE s)"
  shows "callback_mac_address_changed e mac s =
     (nbt_write_file_status e 39 (rev mac),
      s\<lparr>CONNECTION_HANDOVER_MESSAGE :=
           take 39 (CONNECTION_HANDOVER_MESSAGE s) @ rev mac @ drop 45 (CONNECTION_HANDOVER_MESSAGE s),
        calls := calls s @ [Nbt_write_file 39 (rev mac)]\<rparr>)"
  unfolding callback_mac_address_changed_def nbt_write_file_def Let_def mac_loop_long[OF assms]
  using assms
  by (simp add: record_call_def CONNECTION_HANDOVER_MESSAGE_MAC_OFFSET_def
      sizeof_wiced_bt_device_address_t_def)

lemma memcpy_keeps_address_field:
  "45 \<le> length dst \<Longrightarrow> 45 \<le> off \<Longrightarrow> 45 \<le> length (memcpy dst off src n)"
  by (simp add: memcpy_def min_def)


lemma oob_data_calls:
  "calls (snd (snd (ble_callback_local_oob_data e oob s)))
     = calls s @ new_calls s (snd (snd (ble_callback_local_oob_data e oob s)))
   \<and> Wiced_bt_smp_create_local_sc_oob_data m
       \<notin> set (new_calls s (snd (snd (ble_callback_local_oob_data e oob s))))
   \<and> (if 45 \<le> length (CONNECTION_HANDOVER_MESSAGE s)
       then 45 \<le> length (CONNECTION_HANDOVER_MESSAGE (snd (snd (ble_callback_local_oob_data e oob s))))
       else True)"
  by (simp add: ble_callback_local_oob_data_def callback_sc_random_value_changed_eq
      callback_sc_confirmation_value_changed_eq ifx_logger_log_def record_call_def new_calls_def
      memcpy_keeps_address_field Let_def case_prod_beta)

lemma ble_callback_other_calls:
  assumes "\<not> is_enabled_evt (Management_evt e ev)"
  shows "calls (snd (snd (ble_callback cfg e ev s)))
     = calls s @ new_calls s (snd (snd (ble_callback cfg e ev s)))
   \<and> Wiced_bt_smp_create_local_sc_oob_data m
       \<notin> set (new_calls s (snd (snd (ble_callback cfg e ev s))))
   \<and> (if 45 \<le> length (CONNECTION_HANDOVER_MESSAGE s)
       then 45 \<le> length (CONNECTION_HANDOVER_MESSAGE (snd (snd (ble_callback cfg e ev s))))
       else True)"
proof (cases ev)
  case (BTM_ENABLED_EVT st)
  with assms show ?thesis by simp
next
  case (BTM_SMP_SC_LOCAL_OOB_DATA_NOTIFICATION_EVT oob)
  then show ?thesis using oob_data_calls[of e oob s m] by simp
next
  case BTM_LOCAL_IDENTITY_KEYS_REQUEST_EVT
  then show ?thesis
    by (auto simp: mtb_kvstore_read_def record_call_def new_calls_def Let_def
        split: option.splits blob.splits)
qed (simp_all add: mtb_kvstore_write_def wiced_bt_start_advertisements_def
       ifx_logger_log_def record_call_def new_calls_def Let_def)

lemma gatt_callback_calls:
  "calls (snd (gatt_callback cfg e ev s)) = calls s @ new_calls s (snd (gatt_callback cfg e ev s))
   \<and> Wiced_bt_smp_create_local_sc_oob_data m \<notin> set (new_calls s (snd (gatt_callback cfg e ev s)))
   \<and> CONNECTION_HANDOVER_MESSAGE (snd (gatt_callback cfg e ev s)) = CONNECTION_HANDOVER_MESSAGE s"
  by (cases ev)
     (auto simp: gatt_req_write_def gatt_req_read_def wiced_bt_start_advertisements_def
        mtb_kvstore_write_def ifx_logger_log_def record_call_def new_calls_def Let_def
        split: option.splits)

lemma ble_clear_bonding_info_calls:
  "calls (ble_clear_bonding_info e s) = calls s @ new_calls s (ble_clear_bonding_info e s)
   \<and> Wiced_bt_smp_create_local_sc_oob_data m \<notin> set (new_calls s (ble_clear_bonding_info e s))
   \<and> CONNECTION_HANDOVER_MESSAGE (ble_clear_bonding_info e s) = CONNECTION_HANDOVER_MESSAGE s"
  by (simp add: ble_clear_bonding_info_def wiced_bt_start_advertisements_def
      wiced_bt_ble_address_resolution_list_clear_and_disable_def mtb_kvstore_write_def
      ifx_logger_log_def record_call_def new_calls_def Let_def)

lemma ble_gatt_send_hid_update_calls:
  "calls (ble_gatt_send_hid_update cfg s) = calls s @ new_calls s (ble_gatt_send_hid_update cfg s)
   \<and> Wiced_bt_smp_create_local_sc_oob_data m \<notin> set (new_calls s (ble_gatt_send_hid_update cfg s))
   \<and> CONNECTION_HANDOVER_MESSAGE (ble_gatt_send_hid_update cfg s) = CONNECTION_HANDOVER_MESSAGE s"
  by (simp add: ble_gatt_send_hid_update_def record_call_def new_calls_def Let_def)

lemma btn_task_turn_calls:
  "calls (btn_task_turn cfg e taken pressed s)
     = calls s @ new_calls s (btn_task_turn cfg e taken pressed s)
   \<and> Wiced_bt_smp_create_local_sc_oob_data m
       \<notin> set (new_calls s (btn_task_turn cfg e taken pressed s))
   \<and> CONNECTION_HANDOVER_MESSAGE (btn_task_turn cfg e taken pressed s) = CONNECTION_HANDOVER_MESSAGE s"
  using ble_clear_bonding_info_calls[of e s m] ble_gatt_send_hid_update_calls[of cfg s m]
  by (simp add: btn_task_turn_def new_calls_def Let_def)

lemma other_step_calls:
  assumes "\<not> is_enabled_evt stp"
  shows "calls (snd (take_step cfg stp s)) = calls s @ new_calls s (snd (take_step cfg stp s))
   \<and> Wiced_bt_smp_create_local_sc_oob_data m \<notin> set (new_calls s (snd (take_step cfg stp s)))
   \<and> (if 45 \<le> length (CONNECTION_HANDOVER_MESSAGE s)
       then 45 \<le> length (CONNECTION_HANDOVER_MESSAGE (snd (take_step cfg stp s)))
       else True)"
proof (cases stp)
  case (Management_evt e ev)
  then show ?thesis using assms ble_callback_other_calls[of e ev cfg s m]
    by (simp add: case_prod_beta)
next
  case (Gatt_evt e ev)
  then show ?thesis using gatt_callback_calls[of cfg e ev s m] by simp
next
  case Timer_period
  then show ?thesis by (simp add: period_elapsed_def new_calls_def)
next
  case (Button_wakeup e pressed)
  then show ?thesis using btn_task_turn_calls[of cfg e True pressed s m] by simp
qed

lemma enabled_step_calls:
  assumes a: "length (cy_bt_device_address cfg) = 6"
      and len: "45 \<le> length (CONNECTION_HANDOVER_MESSAGE s)"
  shows "calls (snd (snd (ble_callback cfg e (BTM_ENABLED_EVT st) s)))
           = calls s @ new_calls s (snd (snd (ble_callback cfg e (BTM_ENABLED_EVT st) s)))"
    and "45 \<le> length (CONNECTION_HANDOVER_MESSAGE (snd (snd (ble_callback cfg e (BTM_ENABLED_EVT st) s))))"
    and "Wiced_bt_smp_create_local_sc_oob_data m
           \<in> set (new_calls s (snd (snd (ble_callback cfg e (BTM_ENABLED_EVT st) s))))
         \<Longrightarrow> first_then (Nbt_write_file CONNECTION_HANDOVER_MESSAGE_MAC_OFFSET (rev m))
               (Wiced_bt_smp_create_local_sc_oob_data m)
               (new_calls s (snd (snd (ble_callback cfg e (BTM_ENABLED_EVT st) s))))
             \<and> \<not> ifx_error_check (nbt_write_file_status e CONNECTION_HANDOVER_MESSAGE_MAC_OFFSET (rev m))
             \<and> mac_field (snd (snd (ble_callback cfg e (BTM_ENABLED_EVT st) s))) = rev m"
proof -
  define mac where "mac = (cy_bt_device_address cfg)
             [3 := ucast (drop_bit (CY_UNIQUE_ID_DIE_WAFER_Pos cfg) (Cy_SysLib_GetUniqueId e) AND 0xFF),
              4 := ucast (drop_bit (CY_UNIQUE_ID_DIE_X_Pos cfg) (Cy_SysLib_GetUniqueId e) AND 0xFF),
              5 := ucast (drop_bit (CY_UNIQUE_ID_DIE_Y_Pos cfg) (Cy_SysLib_GetUniqueId e) AND 0xFF)]"
  define s1 where "s1 = record_call (Wiced_bt_set_local_bdaddr mac) s"
  define s2 where "s2 = s1\<lparr>CONNECTION_HANDOVER_MESSAGE :=
           take 39 (CONNECTION_HANDOVER_MESSAGE s1) @ rev mac @ drop 45 (CONNECTION_HANDOVER_MESSAGE s1),
        calls := calls s1 @ [Nbt_write_file 39 (rev mac)]\<rparr>"
  define s5 where "s5 = load_previous_bonding_information e s2"
  define s' where "s' = snd (snd (configure_and_generate_oob_data e mac s5))"
  define r where "r = snd (snd (ble_callback_enabled cfg e st s))"
  have lm: "length mac = 6" using a by (simp add: mac_def)
  have len1: "45 \<le> length (CONNECTION_HANDOVER_MESSAGE s1)"
    using len by (simp add: s1_def record_call_def)
  have cb: "callback_mac_address_changed e mac s1 = (nbt_write_file_status e 39 (rev mac), s2)"
    unfolding s2_def by (rule callback_mac_address_changed_long[OF lm len1])
  have res: "r =
     (if st \<noteq> WICED_BT_SUCCESS then s
      else if wiced_bt_set_local_bdaddr_result e mac \<noteq> WICED_BT_SUCCESS then s1
      else if ifx_error_check (nbt_write_file_status e 39 (rev mac))
      then ifx_logger_log IFX_LOG_FATAL ''Could not write BLE device address to NBT'' s2
      else s')"
    unfolding r_def ble_callback_enabled_def Let_def mac_def[symmetric] s1_def[symmetric]
    by (simp add: cb s'_def s5_def)
  have c1: "calls s1 = calls s @ [Wiced_bt_set_local_bdaddr mac]"
    by (simp add: s1_def record_call_def)
  have c2: "calls s2 = calls s @ [Wiced_bt_set_local_bdaddr mac, Nbt_write_file 39 (rev mac)]"
    by (simp add: s2_def s1_def record_call_def)
  have l2: "45 \<le> length (CONNECTION_HANDOVER_MESSAGE s2)"
    using len1 lm by (simp add: s2_def)
  have c5: "calls s5 = calls s2 @ new_calls s2 s5"
    and m5: "CONNECTION_HANDOVER_MESSAGE s5 = CONNECTION_HANDOVER_MESSAGE s2"
    and n5: "Wiced_bt_smp_create_local_sc_oob_data m \<notin> set (new_calls s2 s5)"
    using load_previous_bonding_information_calls[of e s2 m] by (simp_all add: s5_def)
  have c': "calls s' = calls s5 @ new_calls s5 s'"
    and m': "CONNECTION_HANDOVER_MESSAGE s' = CONNECTION_HANDOVER_MESSAGE s5"
    and n': "Wiced_bt_smp_create_local_sc_oob_data m \<in> set (new_calls s5 s') \<Longrightarrow> m = mac"
    using configure_and_generate_oob_data_calls[of e mac s5 m]
    by (simp_all add: s'_def split: if_splits)
  have n25: "new_calls s2 s' = new_calls s2 s5 @ new_calls s5 s'"
    using c5 c' by (rule new_calls_trans)
  have c25: "calls s' = calls s2 @ new_calls s2 s'"
    using c5 c' by (metis append.assoc n25)
  have ext': "calls s' = calls s @ new_calls s s'"
    and "new_calls s s' = new_calls s s2 @ new_calls s2 s'"
    using new_calls_appended(2)[OF c2] c25 new_calls_trans[OF new_calls_appended(2)[OF c2] c25]
    by (metis append.assoc, simp)
  then have all: "new_calls s s' =
      [Wiced_bt_set_local_bdaddr mac, Nbt_write_file 39 (rev mac)] @ new_calls s2 s5 @ new_calls s5 s'"
    by (simp add: new_calls_appended(1)[OF c2] n25)
  show "calls (snd (snd (ble_callback cfg e (BTM_ENABLED_EVT st) s)))
           = calls s @ new_calls s (snd (snd (ble_callback cfg e (BTM_ENABLED_EVT st) s)))"
  proof -
    have "calls (ifx_logger_log IFX_LOG_FATAL ''Could not write BLE device address to NBT'' s2)
            = calls s @ [Wiced_bt_set_local_bdaddr mac, Nbt_write_file 39 (rev mac),
                         Ifx_logger_log IFX_LOG_FATAL ''Could not write BLE device address to NBT'']"
      by (simp add: c2 ifx_logger_log_def record_call_def)
    then have "\<exists>cs. calls r = calls s @ cs"
      using ext' c1 by (auto simp: res)
    then obtain cs where "calls r = calls s @ cs" ..
    then have "calls r = calls s @ new_calls s r" by (rule new_calls_appended(2))
    then show ?thesis by (simp add: r_def)
  qed
  show "45 \<le> length (CONNECTION_HANDOVER_MESSAGE (snd (snd (ble_callback cfg e (BTM_ENABLED_EVT st) s))))"
    using len len1 l2
    by (simp add: r_def[symmetric] res ifx_logger_log_def record_call_def m' m5)
  show "first_then (Nbt_write_file CONNECTION_HANDOVER_MESSAGE_MAC_OFFSET (rev m))
               (Wiced_bt_smp_create_local_sc_oob_data m)
               (new_calls s (snd (snd (ble_callback cfg e (BTM_ENABLED_EVT st) s))))
             \<and> \<not> ifx_error_check (nbt_write_file_status e CONNECTION_HANDOVER_MESSAGE_MAC_OFFSET (rev m))
             \<and> mac_field (snd (snd (ble_callback cfg e (BTM_ENABLED_EVT st) s))) = rev m"
    if req: "Wiced_bt_smp_create_local_sc_oob_data m
           \<in> set (new_calls s (snd (snd (ble_callback cfg e (BTM_ENABLED_EVT st) s))))"
  proof -
    have reached: "r = s'"
      using req
      by (auto simp: r_def[symmetric] res new_calls_def s1_def c2 record_call_def ifx_logger_log_def
          split: if_splits)
    have ok: "\<not> ifx_error_check (nbt_write_file_status e 39 (rev mac))"
      using req
      by (auto simp: r_def[symmetric] res new_calls_def s1_def c2 record_call_def ifx_logger_log_def
          split: if_splits)
    have in': "Wiced_bt_smp_create_local_sc_oob_data m \<in> set (new_calls s5 s')"
      using req n5 by (simp add: r_def[symmetric] reached all)
    have mm: "m = mac" using n' in' by simp
    have field: "mac_field s' = rev mac"
      using len1 lm
      by (simp add: mac_field_def m' m5 s2_def CONNECTION_HANDOVER_MESSAGE_MAC_OFFSET_def
          sizeof_wiced_bt_device_address_t_def)
    show ?thesis
      using in' n5 ok field
      by (simp add: r_def[symmetric] reached all mm CONNECTION_HANDOVER_MESSAGE_MAC_OFFSET_def)
  qed
qed

lemma take_step_calls:
  assumes a: "length (cy_bt_device_address cfg) = 6"
      and len: "45 \<le> length (CONNECTION_HANDOVER_MESSAGE s)"
  shows "calls (snd (take_step cfg stp s)) = calls s @ new_calls s (snd (take_step cfg stp s))"
    and "45 \<le> length (CONNECTION_HANDOVER_MESSAGE (snd (take_step cfg stp s)))"
    and "Wiced_bt_smp_create_local_sc_oob_data m \<in> set (new_calls s (snd (take_step cfg stp s)))
         \<Longrightarrow> first_then (Nbt_write_file CONNECTION_HANDOVER_MESSAGE_MAC_OFFSET (rev m))
               (Wiced_bt_smp_create_local_sc_oob_data m)
               (new_calls s (snd (take_step cfg stp s)))"
proof -
  have "calls (snd (take_step cfg stp s)) = calls s @ new_calls s (snd (take_step cfg stp s))
      \<and> 45 \<le> length (CONNECTION_HANDOVER_MESSAGE (snd (take_step cfg stp s)))
      \<and> (Wiced_bt_smp_create_local_sc_oob_data m \<in> set (new_calls s (snd (take_step cfg stp s)))
         \<longrightarrow> first_then (Nbt_write_file CONNECTION_HANDOVER_MESSAGE_MAC_OFFSET (rev m))
               (Wiced_bt_smp_create_local_sc_oob_data m)
               (new_calls s (snd (take_step cfg stp s))))"
  proof (cases "is_enabled_evt stp")
    case False
    then show ?thesis using other_step_calls[of stp cfg s m] len by simp
  next
    case True
    then obtain e st where stp: "stp = Management_evt e (BTM_ENABLED_EVT st)"
      by (cases stp rule: is_enabled_evt.cases) simp_all
    show ?thesis
      using enabled_step_calls(1,2)[OF a len, of e st] enabled_step_calls(3)[OF a len, of m e st]
      by (simp add: stp case_prod_beta)
  qed
  then show "calls (snd (take_step cfg stp s)) = calls s @ new_calls s (snd (take_step cfg stp s))"
    and "45 \<le> length (CONNECTION_HANDOVER_MESSAGE (snd (take_step cfg stp s)))"
    and "Wiced_bt_smp_create_local_sc_oob_data m \<in> set (new_calls s (snd (take_step cfg stp s)))
         \<Longrightarrow> first_then (Nbt_write_file CONNECTION_HANDOVER_MESSAGE_MAC_OFFSET (rev m))
               (Wiced_bt_smp_create_local_sc_oob_data m)
               (new_calls s (snd (take_step cfg stp s)))"
    by simp_all
qed

lemma run_keeps_order:
  assumes a: "length (cy_bt_device_address cfg) = 6"
  shows "45 \<le> length (CONNECTION_HANDOVER_MESSAGE s)
     \<Longrightarrow> (\<forall>m. Wiced_bt_smp_create_local_sc_oob_data m \<in> set (calls s) \<longrightarrow>
            first_then (Nbt_write_file CONNECTION_HANDOVER_MESSAGE_MAC_OFFSET (rev m))
              (Wiced_bt_smp_create_local_sc_oob_data m) (calls s))
     \<Longrightarrow> (\<forall>m. Wiced_bt_smp_create_local_sc_oob_data m \<in> set (calls (run cfg steps s)) \<longrightarrow>
            first_then (Nbt_write_file CONNECTION_HANDOVER_MESSAGE_MAC_OFFSET (rev m))
              (Wiced_bt_smp_create_local_sc_oob_data m) (calls (run cfg steps s)))"
proof (induction steps arbitrary: s)
  case Nil
  then show ?case by simp
next
  case (Cons stp rest)
  let ?s' = "snd (take_step cfg stp s)"
  let ?new = "new_calls s ?s'"
  have ext: "calls ?s' = calls s @ ?new"
    and len': "45 \<le> length (CONNECTION_HANDOVER_MESSAGE ?s')"
    using take_step_calls(1,2)[OF a Cons.prems(1)] by simp_all
  have ord': "\<forall>m. Wiced_bt_smp_create_local_sc_oob_data m \<in> set (calls ?s') \<longrightarrow>
            first_then (Nbt_write_file CONNECTION_HANDOVER_MESSAGE_MAC_OFFSET (rev m))
              (Wiced_bt_smp_create_local_sc_oob_data m) (calls ?s')"
  proof (intro allI impI)
    fix m
    assume in': "Wiced_bt_smp_create_local_sc_oob_data m \<in> set (calls ?s')"
    show "first_then (Nbt_write_file CONNECTION_HANDOVER_MESSAGE_MAC_OFFSET (rev m))
              (Wiced_bt_smp_create_local_sc_oob_data m) (calls ?s')"
    proof (cases "Wiced_bt_smp_create_local_sc_oob_data m \<in> set (calls s)")
      case True
      with Cons.prems(2) have "first_then (Nbt_write_file CONNECTION_HANDOVER_MESSAGE_MAC_OFFSET (rev m))
              (Wiced_bt_smp_create_local_sc_oob_data m) (calls s)" by simp
      then have "first_then (Nbt_write_file CONNECTION_HANDOVER_MESSAGE_MAC_OFFSET (rev m))
              (Wiced_bt_smp_create_local_sc_oob_data m) (calls s @ ?new)"
        by (rule first_then_append_left)
      then show ?thesis by (simp only: ext)
    next
      case False
      with in' ext have "Wiced_bt_smp_create_local_sc_oob_data m \<in> set ?new"
        by (metis Un_iff set_append)
      then have "first_then (Nbt_write_file CONNECTION_HANDOVER_MESSAGE_MAC_OFFSET (rev m))
              (Wiced_bt_smp_create_local_sc_oob_data m) ?new"
        by (rule take_step_calls(3)[OF a Cons.prems(1)])
      with False have "first_then (Nbt_write_file CONNECTION_HANDOVER_MESSAGE_MAC_OFFSET (rev m))
              (Wiced_bt_smp_create_local_sc_oob_data m) (calls s @ ?new)"
        by (intro first_then_append_right) simp_all
      then show ?thesis by (simp only: ext)
    qed
  qed
  show ?case
  proof (cases "fst (take_step cfg stp s)")
    case True
    then have "run cfg (stp # rest) s = ?s'" by (simp add: case_prod_beta)
    with ord' show ?thesis by simp
  next
    case False
    then have "run cfg (stp # rest) s = run cfg rest ?s'" by (simp add: case_prod_beta)
    with Cons.IH[OF len' ord'] show ?thesis by simp
  qed
qed

lemma first_then_first: "first_then a b cs \<Longrightarrow> a \<in> set cs"
  by (induction cs) (auto split: if_splits)

text \<open>
  Claim C2, as the program has it. A run is any sequence of management events, GATT events,
  timer periods and wake-ups of the button task, each with its own answers of the
  collaborators, from a state in which no OOB data has been requested yet and whose message
  holds the address field (45 bytes or more; the program's message has 115). In every such
  run, each request to the stack for the local OOB data of an address is preceded, in the
  record of collaborator calls, by the push of the reversed address to the tag transport at
  offset 39, so that a notification the stack delivers in answer to the request is
  processed after the push. No step other than the enabled event issues the request; and
  when the handler of the enabled event issues it, it has pushed the reversed address
  before, the push was accepted, and the address field of the message holds the reversed
  address. The handler of the OOB data notification itself checks no state.
\<close>

theorem oob_request_follows_address_push:
  assumes a: "length (cy_bt_device_address cfg) = 6"
      and len: "45 \<le> length (CONNECTION_HANDOVER_MESSAGE s)"
      and fresh: "\<forall>m'. Wiced_bt_smp_create_local_sc_oob_data m' \<notin> set (calls s)"
  shows "(Wiced_bt_smp_create_local_sc_oob_data m \<in> set (calls (run cfg steps s)) \<longrightarrow>
            first_then (Nbt_write_file CONNECTION_HANDOVER_MESSAGE_MAC_OFFSET (rev m))
              (Wiced_bt_smp_create_local_sc_oob_data m) (calls (run cfg steps s))
            \<and> Nbt_write_file CONNECTION_HANDOVER_MESSAGE_MAC_OFFSET (rev m)
                \<in> set (calls (run cfg steps s)))
       \<and> (\<not> is_enabled_evt stp \<longrightarrow>
            Wiced_bt_smp_create_local_sc_oob_data m \<notin> set (new_calls s (snd (take_step cfg stp s))))
       \<and> (Wiced_bt_smp_create_local_sc_oob_data m
               \<in> set (new_calls s (snd (snd (ble_callback cfg e (BTM_ENABLED_EVT st) s)))) \<longrightarrow>
            first_then (Nbt_write_file CONNECTION_HANDOVER_MESSAGE_MAC_OFFSET (rev m))
              (Wiced_bt_smp_create_local_sc_oob_data m)
              (new_calls s (snd (snd (ble_callback cfg e (BTM_ENABLED_EVT st) s))))
            \<and> \<not> ifx_error_check (nbt_write_file_status e CONNECTION_HANDOVER_MESSAGE_MAC_OFFSET (rev m))
            \<and> mac_field (snd (snd (ble_callback cfg e (BTM_ENABLED_EVT st) s))) = rev m)"
proof -
  have ord: "\<forall>m. Wiced_bt_smp_create_local_sc_oob_data m \<in> set (calls s) \<longrightarrow>
            first_then (Nbt_write_file CONNECTION_HANDOVER_MESSAGE_MAC_OFFSET (rev m))
              (Wiced_bt_smp_create_local_sc_oob_data m) (calls s)"
    using fresh by simp
  show ?thesis
    using run_keeps_order[OF a len ord, of steps] other_step_calls[of stp cfg s m]
      enabled_step_calls(3)[OF a len, of m e st] first_then_first
    by blast
qed

lemma enabled_calls:
  "new_calls example_state (snd (snd (ble_callback example_config (accepting_env example_tag)
       (BTM_ENABLED_EVT WICED_BT_SUCCESS) example_state)))
   = [Wiced_bt_set_local_bdaddr [0x00, 0xA0, 0x50, 0xC3, 0xB2, 0xA1],
      Nbt_write_file 39 [0xA1, 0xB2, 0xC3, 0x50, 0xA0, 0x00],
      Mtb_kvstore_read ''bonding'',
      Wiced_bt_set_pairable_mode,
      Wiced_bt_ble_set_raw_advertisement_data,
      Wiced_bt_gatt_register,
      Wiced_bt_gatt_db_init,
      Wiced_bt_smp_create_local_sc_oob_data [0x00, 0xA0, 0x50, 0xC3, 0xB2, 0xA1],
      Wiced_bt_start_advertisements BTM_BLE_ADVERT_UNDIRECTED_HIGH]"
proof -
  have mac: "(cy_bt_device_address example_config)
             [3 := ucast (drop_bit (CY_UNIQUE_ID_DIE_WAFER_Pos example_config)
                            (Cy_SysLib_GetUniqueId (accepting_env example_tag)) AND 0xFF),
              4 := ucast (drop_bit (CY_UNIQUE_ID_DIE_X_Pos example_config)
                            (Cy_SysLib_GetUniqueId (accepting_env example_tag)) AND 0xFF),
              5 := ucast (drop_bit (CY_UNIQUE_ID_DIE_Y_Pos example_config)
                            (Cy_SysLib_GetUniqueId (accepting_env example_tag)) AND 0xFF)]
        = [0x00, 0xA0, 0x50, 0xC3, 0xB2, 0xA1]"
    by (simp add: example_config_def accepting_env_def)
  have len1: "length (CONNECTION_HANDOVER_MESSAGE
                (record_call (Wiced_bt_set_local_bdaddr [0x00, 0xA0, 0x50, 0xC3, 0xB2, 0xA1])
                   example_state)) = 115"
    using example_state_length by (simp add: record_call_def)
  have cb: "callback_mac_address_changed (accepting_env example_tag) [0x00, 0xA0, 0x50, 0xC3, 0xB2, 0xA1]
              (record_call (Wiced_bt_set_local_bdaddr [0x00, 0xA0, 0x50, 0xC3, 0xB2, 0xA1]) example_state)
       = (IFX_SUCCESS,
          (record_call (Wiced_bt_set_local_bdaddr [0x00, 0xA0, 0x50, 0xC3, 0xB2, 0xA1]) example_state)
            \<lparr>CONNECTION_HANDOVER_MESSAGE :=
               take 39 (CONNECTION_HANDOVER_MESSAGE example_state) @ [0xA1, 0xB2, 0xC3, 0x50, 0xA0, 0x00]
                 @ drop 45 (CONNECTION_HANDOVER_MESSAGE example_state),
             calls := calls example_state @
               [Wiced_bt_set_local_bdaddr [0x00, 0xA0, 0x50, 0xC3, 0xB2, 0xA1],
                Nbt_write_file 39 [0xA1, 0xB2, 0xC3, 0x50, 0xA0, 0x00]]\<rparr>)"
    using callback_mac_address_changed_eq[OF _ len1, of "[0x00, 0xA0, 0x50, 0xC3, 0xB2, 0xA1]"
            "accepting_env example_tag"]
    by (simp add: record_call_def accepting_env_def)
  have st: "data_storage example_state = Map.empty" "calls example_state = []"
    by (simp_all add: example_state_def initial_state_def)
  show ?thesis
    unfolding ble_callback.simps ble_callback_enabled_def Let_def mac cb
    by (simp add: ifx_error_check_def load_previous_bonding_information_def
        configure_and_generate_oob_data_def mtb_kvstore_read_def wiced_bt_start_advertisements_def
        record_call_def new_calls_def st Let_def)
       (simp add: accepting_env_def)
qed

lemma enabled_returns:
  "fst (ble_callback example_config (accepting_env example_tag)
       (BTM_ENABLED_EVT WICED_BT_SUCCESS) example_state) = Returns WICED_BT_SUCCESS"
proof -
  have mac: "(cy_bt_device_address example_config)
             [3 := ucast (drop_bit (CY_UNIQUE_ID_DIE_WAFER_Pos example_config)
                            (Cy_SysLib_GetUniqueId (accepting_env example_tag)) AND 0xFF),
              4 := ucast (drop_bit (CY_UNIQUE_ID_DIE_X_Pos example_config)
                            (Cy_SysLib_GetUniqueId (accepting_env example_tag)) AND 0xFF),
              5 := ucast (drop_bit (CY_UNIQUE_ID_DIE_Y_Pos example_config)
                            (Cy_SysLib_GetUniqueId (accepting_env example_tag)) AND 0xFF)]
        = [0x00, 0xA0, 0x50, 0xC3, 0xB2, 0xA1]"
    by (simp add: example_config_def accepting_env_def)
  have st: "fst (callback_mac_address_changed (accepting_env example_tag) m s) = IFX_SUCCESS" for m s
    by (simp add: callback_mac_address_changed_def nbt_write_file_def Let_def accepting_env_def)
  show ?thesis
    unfolding ble_callback.simps ble_callback_enabled_def Let_def mac
    by (simp add: case_prod_beta st ifx_error_check_def configure_and_generate_oob_data_def
        wiced_bt_start_advertisements_def Let_def)
       (simp add: accepting_env_def)
qed

theorem oob_request_follows_address_push_witness:
  "length (cy_bt_device_address example_config) = 6
   \<and> 45 \<le> length (CONNECTION_HANDOVER_MESSAGE example_state)
   \<and> (\<forall>m'. Wiced_bt_smp_create_local_sc_oob_data m' \<notin> set (calls example_state))
   \<and> Wiced_bt_smp_create_local_sc_oob_data [0x00, 0xA0, 0x50, 0xC3, 0xB2, 0xA1]
       \<in> set (calls (run example_config example_run example_state))
   \<and> first_then (Nbt_write_file 39 [0xA1, 0xB2, 0xC3, 0x50, 0xA0, 0x00])
        (Wiced_bt_smp_create_local_sc_oob_data [0x00, 0xA0, 0x50, 0xC3, 0xB2, 0xA1])
        (calls (run example_config example_run example_state))
   \<and> \<not> is_enabled_evt (Management_evt (accepting_env example_tag)
            (BTM_SMP_SC_LOCAL_OOB_DATA_NOTIFICATION_EVT scenario_A_oob))
   \<and> Wiced_bt_smp_create_local_sc_oob_data [0x00, 0xA0, 0x50, 0xC3, 0xB2, 0xA1]
       \<notin> set (new_calls example_state (snd (take_step example_config
                 (Management_evt (accepting_env example_tag)
                    (BTM_SMP_SC_LOCAL_OOB_DATA_NOTIFICATION_EVT scenario_A_oob)) example_state)))
   \<and> Wiced_bt_smp_create_local_sc_oob_data [0x00, 0xA0, 0x50, 0xC3, 0xB2, 0xA1]
       \<in> set (new_calls example_state (snd (snd (ble_callback example_config (accepting_env example_tag)
                 (BTM_ENABLED_EVT WICED_BT_SUCCESS) example_state))))
   \<and> mac_field (snd (snd (ble_callback example_config (accepting_env example_tag)
                 (BTM_ENABLED_EVT WICED_BT_SUCCESS) example_state)))
       = [0xA1, 0xB2, 0xC3, 0x50, 0xA0, 0x00]"
proof -
  let ?mac = "[0x00, 0xA0, 0x50, 0xC3, 0xB2, 0xA1] :: uint8_t list"
  let ?en = "snd (snd (ble_callback example_config (accepting_env example_tag)
                 (BTM_ENABLED_EVT WICED_BT_SUCCESS) example_state))"
  have a: "length (cy_bt_device_address example_config) = 6"
    by (simp add: example_config_def)
  have len: "45 \<le> length (CONNECTION_HANDOVER_MESSAGE example_state)"
    by (simp add: example_state_length)
  have c0: "calls example_state = []"
    by (simp add: example_state_def initial_state_def)
  have fresh: "\<forall>m'. Wiced_bt_smp_create_local_sc_oob_data m' \<notin> set (calls example_state)"
    by (simp add: c0)
  have req: "Wiced_bt_smp_create_local_sc_oob_data ?mac \<in> set (new_calls example_state ?en)"
    by (simp only: enabled_calls) simp
  have en: "Wiced_bt_smp_create_local_sc_oob_data ?mac \<in> set (calls ?en)"
    using req enabled_step_calls(1)[OF a len, of "accepting_env example_tag" WICED_BT_SUCCESS]
    by (metis Un_iff set_append)
  have run: "run example_config example_run example_state
       = snd (snd (ble_callback example_config (accepting_env example_tag)
                 (BTM_SMP_SC_LOCAL_OOB_DATA_NOTIFICATION_EVT scenario_A_oob) ?en))"
    using enabled_returns by (simp add: example_run_def case_prod_beta)
  have inrun: "Wiced_bt_smp_create_local_sc_oob_data ?mac
       \<in> set (calls (run example_config example_run example_state))"
    using en oob_data_calls[of "accepting_env example_tag" scenario_A_oob ?en ?mac]
    by (simp only: run ble_callback.simps) (metis Un_iff set_append)
  have ne: "\<not> is_enabled_evt (Management_evt (accepting_env example_tag)
            (BTM_SMP_SC_LOCAL_OOB_DATA_NOTIFICATION_EVT scenario_A_oob))"
    by simp
  from oob_request_follows_address_push[OF a len fresh, where m = ?mac and steps = example_run
            and stp = "Management_evt (accepting_env example_tag)
                         (BTM_SMP_SC_LOCAL_OOB_DATA_NOTIFICATION_EVT scenario_A_oob)"
            and e = "accepting_env example_tag" and st = WICED_BT_SUCCESS]
       inrun ne req
  have c: "first_then (Nbt_write_file 39 [0xA1, 0xB2, 0xC3, 0x50, 0xA0, 0x00])
        (Wiced_bt_smp_create_local_sc_oob_data ?mac)
        (calls (run example_config example_run example_state))
     \<and> Wiced_bt_smp_create_local_sc_oob_data ?mac
       \<notin> set (new_calls example_state (snd (take_step example_config
                 (Management_evt (accepting_env example_tag)
                    (BTM_SMP_SC_LOCAL_OOB_DATA_NOTIFICATION_EVT scenario_A_oob)) example_state)))
     \<and> mac_field ?en = [0xA1, 0xB2, 0xC3, 0x50, 0xA0, 0x00]"
    by (simp add: CONNECTION_HANDOVER_MESSAGE_MAC_OFFSET_def)
  show ?thesis using a len fresh inrun ne req c by blast
qed

text \<open>
  Claim C2 as stated fails: in the state the program starts in, where nothing has been pushed
  yet and the address field still holds its placeholder, the handler of the OOB data
  notification processes the event: it returns success, not an error, and pushes the
  random and confirmation values to the tag transport, the address field still being the
  placeholder.
\<close>

theorem oob_data_before_enabled_is_processed:
  "calls example_state = []
   \<and> mac_field example_state = [0xFF, 0xFF, 0xFF, 0xFF, 0xFF, 0xFF]
   \<and> fst (ble_callback example_config (accepting_env example_tag)
            (BTM_SMP_SC_LOCAL_OOB_DATA_NOTIFICATION_EVT scenario_A_oob) example_state)
       = Returns WICED_BT_SUCCESS
   \<and> calls (snd (snd (ble_callback example_config (accepting_env example_tag)
            (BTM_SMP_SC_LOCAL_OOB_DATA_NOTIFICATION_EVT scenario_A_oob) example_state)))
       = [Nbt_write_file 96 (replicate 16 0x00), Nbt_write_file 78 (0x41 # replicate 15 0x00)]
   \<and> mac_field (snd (snd (ble_callback example_config (accepting_env example_tag)
            (BTM_SMP_SC_LOCAL_OOB_DATA_NOTIFICATION_EVT scenario_A_oob) example_state)))
       = [0xFF, 0xFF, 0xFF, 0xFF, 0xFF, 0xFF]"
proof -
  have c: "calls example_state = []"
    by (simp add: example_state_def initial_state_def)
  have m: "CONNECTION_HANDOVER_MESSAGE example_state = CONNECTION_HANDOVER_MESSAGE_skeleton"
    by (simp add: example_state_def initial_state_def)
  show ?thesis
    by (simp add: ble_callback_local_oob_data_def callback_sc_random_value_changed_eq
      callback_sc_confirmation_value_changed_eq accepting_env_def example_tag_def scenario_A_oob_def
      ifx_error_check_def mac_field_def c m CONNECTION_HANDOVER_MESSAGE_skeleton_def
      CONNECTION_HANDOVER_MESSAGE_MAC_OFFSET_def sizeof_wiced_bt_device_address_t_def
      memcpy_def Let_def)
qed

section \<open>Requests for the peer's link keys\<close>

lemma bonded_state_bonding_info:
  "bonding_info bonded_state = \<lparr>device_link_keys = example_link_keys, bonded = True\<rparr>"
  by (simp add: bonded_state_def mtb_kvstore_write_def record_call_def ifx_logger_log_def Let_def
      example_state_def initial_state_def)

lemma example_state_not_bonded: "\<not> bonded (bonding_info example_state)"
  by (simp add: example_state_def initial_state_def)



section \<open>Writes to the client characteristic configuration descriptor\<close>

lemma le16_or_add:
  "push_bit 8 (ucast (b1 :: uint8_t) :: uint16_t) OR ucast (b0 :: uint8_t)
     = push_bit 8 (ucast b1) + ucast b0"
  by (rule disjunctive_add[symmetric]) (auto simp: bit_simps dest: bit_imp_le_length)

lemma byte_less: "unat (b :: uint8_t) < 256"
  using unsigned_less[of b, where 'a=nat] by simp

lemma unat_ucast_byte: "unat (ucast (b0 :: uint8_t) :: uint16_t) = unat b0"
  using byte_less[of b0] by (simp add: unsigned_ucast_eq take_bit_eq_mod)

lemma unat_high_byte: "unat (push_bit 8 (ucast (b1 :: uint8_t) :: uint16_t)) = 256 * unat b1"
  using byte_less[of b1] by (simp add: push_bit_eq_mult unat_word_ariths unat_ucast_byte)

lemma unat_le16:
  "unat ((push_bit 8 (ucast (b1 :: uint8_t)) OR ucast (b0 :: uint8_t)) :: uint16_t)
     = unat b0 + 256 * unat b1"
  using byte_less[of b1] byte_less[of b0]
  by (simp add: le16_or_add unat_word_ariths unat_ucast_byte unat_high_byte)

lemma handle2attr_loop_Some:
  "handle2attr_loop j tbl h = Some i
     \<Longrightarrow> j \<le> i \<and> i - j < length tbl \<and> handle (tbl ! (i - j)) = h"
proof (induction tbl arbitrary: j)
  case Nil
  then show ?case by simp
next
  case (Cons a rest)
  show ?case
  proof (cases "h = handle a")
    case True
    with Cons.prems show ?thesis by simp
  next
    case False
    with Cons.prems have "handle2attr_loop (j + 1) rest h = Some i" by simp
    from Cons.IH[OF this] show ?thesis
      by (auto simp: nth_Cons' Suc_diff_Suc)
  qed
qed

lemma handle2attr_Some:
  "handle2attr s h = Some i
     \<Longrightarrow> i < length (app_gatt_db_ext_attr_tbl s) \<and> handle (app_gatt_db_ext_attr_tbl s ! i) = h"
  using handle2attr_loop_Some[of 0 "app_gatt_db_ext_attr_tbl s" h i] by (simp add: handle2attr_def)

text \<open>
  Claim C10, as the program has it. For a write request whose \<open>val_len\<close> is the number of
  bytes it carries: when the handle resolves to no attribute, or to an attribute other
  than the client characteristic configuration descriptor of the HID report, or the write
  carries fewer than 2 bytes, or more bytes than the attribute's \<open>max_len\<close>, \<open>cccd\<close> is
  unchanged; when the handle is that of the descriptor and the write carries at least 2
  and at most \<open>max_len\<close> bytes, \<open>cccd\<close> is the little-endian value of the first two
  bytes written (first byte low).
\<close>

theorem cccd_after_write:
  assumes wf: "length p_val = unat val_len"
  shows "unat (cccd (snd (gatt_callback cfg e (GATT_REQ_WRITE conn h val_len p_val) s))) =
     (case handle2attr s h of
        None \<Rightarrow> unat (cccd s)
      | Some i \<Rightarrow>
          if h = HDLD_HIDS_REPORT_CLIENT_CHAR_CONFIG cfg \<and> 2 \<le> length p_val
             \<and> val_len \<le> max_len (app_gatt_db_ext_attr_tbl s ! i)
          then unat (p_val ! 0) + 256 * unat (p_val ! 1)
          else unat (cccd s))"
proof (cases "handle2attr s h")
  case None
  then show ?thesis by (simp add: gatt_req_write_def record_call_def)
next
  case (Some i)
  have hd: "handle (app_gatt_db_ext_attr_tbl s ! i) = h"
    using handle2attr_Some[OF Some] by simp
  have two: "(2 \<le> val_len) = (2 \<le> length p_val)"
    using wf by (simp add: word_le_nat_alt)
  have nth: "2 \<le> length p_val \<Longrightarrow> memcpy old 0 p_val (unat val_len) ! 0 = p_val ! 0
              \<and> memcpy old 0 p_val (unat val_len) ! 1 = p_val ! 1" for old
    using wf by (simp add: memcpy_def nth_append)
  show ?thesis
    using Some hd two nth
    by (auto simp: gatt_req_write_def record_call_def mtb_kvstore_write_def ifx_logger_log_def
        Let_def unat_le16 not_less split: prod.splits)
qed

lemma example_handle2attr: "handle2attr example_state 0x000F = Some 1"
  by (simp add: handle2attr_def example_state_def initial_state_def example_tbl_def)

theorem cccd_after_write_witness:
  "length [0x01, 0x00 :: uint8_t] = unat (2 :: uint16_t)
   \<and> cccd example_state = 0
   \<and> unat (cccd (snd (gatt_callback example_config (accepting_env example_tag)
                (GATT_REQ_WRITE 1 0x000F 2 [0x01, 0x00]) example_state))) = 1"
  using cccd_after_write[of "[0x01, 0x00]" 2 example_config "accepting_env example_tag" 1 "0x000F"
          example_state]
  by (simp add: example_handle2attr)
     (simp add: example_state_def initial_state_def example_tbl_def example_config_def)

text \<open>
  Claim C10 as stated fails for a write of at least 2 bytes that is longer than the
  descriptor: three bytes \<open>01 00 00\<close> written to the descriptor, whose \<open>max_len\<close> is 2, are
  rejected with \<open>WICED_BT_GATT_INVALID_ATTR_LEN\<close> and the state, with \<open>cccd = 0\<close>, is
  unchanged, while the little-endian value of the first two bytes is 1.
\<close>

theorem cccd_overlong_write_rejected:
  "handle2attr example_state (HDLD_HIDS_REPORT_CLIENT_CHAR_CONFIG example_config) = Some 1
   \<and> length [0x01, 0x00, 0x00 :: uint8_t] = unat (3 :: uint16_t)
   \<and> gatt_callback example_config (accepting_env example_tag)
         (GATT_REQ_WRITE 1 (HDLD_HIDS_REPORT_CLIENT_CHAR_CONFIG example_config) 3 [0x01, 0x00, 0x00])
         example_state
       = (WICED_BT_GATT_INVALID_ATTR_LEN, example_state)
   \<and> cccd example_state = 0
   \<and> push_bit 8 (ucast (0x00 :: uint8_t)) OR ucast (0x01 :: uint8_t) = (1 :: uint16_t)"
  by (simp add: gatt_req_write_def handle2attr_def example_state_def initial_state_def example_tbl_def
      example_config_def)

section \<open>Sending the HID notification\<close>

text \<open>
  Claim C9, as the program has it. \<open>ble_gatt_send_hid_update\<close> looks at one thing only,
  the notification bit in the first byte of the live client characteristic configuration
  attribute of the HID report. When the bit is set it asks the stack to notify the report
  with first byte \<open>0x01\<close>, waits 30 ms, and asks the stack to notify the report with first
  byte \<open>0x00\<close>, both requests carrying the current \<open>connection_id\<close>, whatever it is;
  when the bit is clear it makes no call and leaves the state as it is.
\<close>

theorem send_hid_update_calls:
  "new_calls s (ble_gatt_send_hid_update cfg s) =
     (if (ucast (gatt_arrays s App_hids_report_client_char_config ! 0)
            AND GATT_CLIENT_CONFIG_NOTIFICATION cfg) \<noteq> 0
      then [Wiced_bt_gatt_server_send_notification (connection_id s) (HDLC_HIDS_REPORT_VALUE cfg)
              (take (unat (app_hids_report_len cfg)) ((gatt_arrays s App_hids_report)[0 := 0x01])),
            VTaskDelay_ms 30,
            Wiced_bt_gatt_server_send_notification (connection_id s) (HDLC_HIDS_REPORT_VALUE cfg)
              (take (unat (app_hids_report_len cfg)) ((gatt_arrays s App_hids_report)[0 := 0x00]))]
      else [])
   \<and> (if (ucast (gatt_arrays s App_hids_report_client_char_config ! 0)
            AND GATT_CLIENT_CONFIG_NOTIFICATION cfg) \<noteq> 0
       then connection_id (ble_gatt_send_hid_update cfg s) = connection_id s
       else ble_gatt_send_hid_update cfg s = s)"
  by (simp add: ble_gatt_send_hid_update_def record_call_def new_calls_def Let_def)

lemma disconnected_subscribed_connection_id: "connection_id disconnected_subscribed = 0"
  by (simp add: disconnected_subscribed_def wiced_bt_start_advertisements_def record_call_def
      Let_def split: prod.splits)

lemma disconnected_subscribed_config:
  "gatt_arrays disconnected_subscribed App_hids_report_client_char_config = [0x01, 0x00]"
  by (simp add: disconnected_subscribed_def wiced_bt_start_advertisements_def record_call_def Let_def
      gatt_req_write_def handle2attr_def example_state_def initial_state_def example_tbl_def
      example_arrays_def example_config_def accepting_env_def mtb_kvstore_write_def memcpy_def
      split: prod.splits)

lemma disconnected_subscribed_report:
  "gatt_arrays disconnected_subscribed App_hids_report = [0x00]"
  by (simp add: disconnected_subscribed_def wiced_bt_start_advertisements_def record_call_def Let_def
      gatt_req_write_def handle2attr_def example_state_def initial_state_def example_tbl_def
      example_arrays_def example_config_def accepting_env_def mtb_kvstore_write_def memcpy_def
      split: prod.splits)

theorem send_hid_update_calls_witness:
  "(ucast (gatt_arrays disconnected_subscribed App_hids_report_client_char_config ! 0)
       AND GATT_CLIENT_CONFIG_NOTIFICATION example_config) \<noteq> 0
   \<and> new_calls disconnected_subscribed (ble_gatt_send_hid_update example_config disconnected_subscribed)
       = [Wiced_bt_gatt_server_send_notification 0 0x000E [0x01],
          VTaskDelay_ms 30,
          Wiced_bt_gatt_server_send_notification 0 0x000E [0x00]]
   \<and> (ucast (gatt_arrays example_state App_hids_report_client_char_config ! 0)
       AND GATT_CLIENT_CONFIG_NOTIFICATION example_config) = 0
   \<and> ble_gatt_send_hid_update example_config example_state = example_state"
  using send_hid_update_calls[of disconnected_subscribed example_config]
        send_hid_update_calls[of example_state example_config]
  by (simp add: disconnected_subscribed_connection_id disconnected_subscribed_config
        disconnected_subscribed_report)
     (simp add: example_config_def example_state_def initial_state_def example_arrays_def)

text \<open>
  Claim C9 as stated fails when no connection exists: after a peer has subscribed and
  disconnected, \<open>connection_id\<close> is 0 and \<open>ble_gatt_send_hid_update\<close> is not a no-op. It
  issues both notification requests, with connection id 0, and the delay between them.
\<close>

theorem send_hid_update_without_connection:
  "connection_id disconnected_subscribed = 0
   \<and> new_calls disconnected_subscribed (ble_gatt_send_hid_update example_config disconnected_subscribed)
       = [Wiced_bt_gatt_server_send_notification 0 0x000E [0x01],
          VTaskDelay_ms 30,
          Wiced_bt_gatt_server_send_notification 0 0x000E [0x00]]
   \<and> ble_gatt_send_hid_update example_config disconnected_subscribed \<noteq> disconnected_subscribed"
proof -
  have n: "new_calls disconnected_subscribed
             (ble_gatt_send_hid_update example_config disconnected_subscribed)
       = [Wiced_bt_gatt_server_send_notification 0 0x000E [0x01],
          VTaskDelay_ms 30,
          Wiced_bt_gatt_server_send_notification 0 0x000E [0x00]]"
    by (simp add: ble_gatt_send_hid_update_def record_call_def new_calls_def Let_def
        disconnected_subscribed_connection_id disconnected_subscribed_config
        disconnected_subscribed_report example_config_def)
  have "new_calls disconnected_subscribed disconnected_subscribed = []"
    by (simp add: new_calls_def)
  with n have "ble_gatt_send_hid_update example_config disconnected_subscribed \<noteq> disconnected_subscribed"
    by auto
  with n disconnected_subscribed_connection_id show ?thesis by simp
qed

section \<open>Resetting the bond\<close>

lemma reset_not_bonded:
  assumes "\<not> bonded (bonding_info s)"
  shows "bonding_info (ble_clear_bonding_info e s) = bonding_info s"
    and "data_storage (ble_clear_bonding_info e s) = data_storage s"
  using assms
  by (simp_all add: ble_clear_bonding_info_def wiced_bt_start_advertisements_def
      wiced_bt_ble_address_resolution_list_clear_and_disable_def
      record_call_def ifx_logger_log_def Let_def)

lemma reset_accepted:
  assumes "stack_accepts_reset e"
  shows "\<not> bonded (bonding_info (ble_clear_bonding_info e s))"
    and "resolution_list (ble_clear_bonding_info e s) = []"
    and "advertising (ble_clear_bonding_info e s) = BTM_BLE_ADVERT_UNDIRECTED_HIGH"
  using assms
  by (simp_all add: stack_accepts_reset_def ble_clear_bonding_info_def wiced_bt_start_advertisements_def
      wiced_bt_ble_address_resolution_list_clear_and_disable_def mtb_kvstore_write_def
      record_call_def ifx_logger_log_def Let_def)

lemma reset_accepted_not_bonded_logs:
  assumes "stack_accepts_reset e" and "\<not> bonded (bonding_info s)"
  shows "filter is_log (new_calls s (ble_clear_bonding_info e s)) = []"
  using assms
  by (simp add: stack_accepts_reset_def ble_clear_bonding_info_def wiced_bt_start_advertisements_def
      wiced_bt_ble_address_resolution_list_clear_and_disable_def
      record_call_def ifx_logger_log_def new_calls_def Let_def)

lemma reset_records_call: "calls (ble_clear_bonding_info e s) \<noteq> calls s"
  by (auto simp: ble_clear_bonding_info_def wiced_bt_start_advertisements_def
      wiced_bt_ble_address_resolution_list_clear_and_disable_def mtb_kvstore_write_def
      record_call_def ifx_logger_log_def Let_def split: prod.splits if_splits)

lemma accepting_env_accepts_reset: "stack_accepts_reset (accepting_env example_tag)"
  by (simp add: stack_accepts_reset_def accepting_env_def)

lemma reset_stop_refused:
  assumes "wiced_bt_start_advertisements_result e BTM_BLE_ADVERT_OFF \<noteq> WICED_BT_SUCCESS"
  shows "end_state (ble_clear_bonding_info e s) = end_state s"
  using assms
  by (simp add: end_state_def ble_clear_bonding_info_def wiced_bt_start_advertisements_def
      record_call_def ifx_logger_log_def Let_def)

lemma reset_stop_accepted:
  assumes "wiced_bt_start_advertisements_result e BTM_BLE_ADVERT_OFF = WICED_BT_SUCCESS"
  shows "\<not> bonded (bonding_info (ble_clear_bonding_info e s))"
    and "resolution_list (ble_clear_bonding_info e s)
           = (if wiced_bt_ble_address_resolution_list_clear_and_disable_result e = WICED_BT_SUCCESS
              then [] else resolution_list s)"
    and "advertising (ble_clear_bonding_info e s)
           = (if wiced_bt_start_advertisements_result e BTM_BLE_ADVERT_UNDIRECTED_HIGH = WICED_BT_SUCCESS
              then BTM_BLE_ADVERT_UNDIRECTED_HIGH else BTM_BLE_ADVERT_OFF)"
  using assms
  by (simp_all add: ble_clear_bonding_info_def wiced_bt_start_advertisements_def
      wiced_bt_ble_address_resolution_list_clear_and_disable_def mtb_kvstore_write_def
      record_call_def ifx_logger_log_def Let_def)

lemma reset_twice_same_answers:
  assumes same: "same_stack_answers e1 e2"
  shows "end_state (ble_clear_bonding_info e2 (ble_clear_bonding_info e1 s))
           = end_state (ble_clear_bonding_info e1 s)"
proof (cases "wiced_bt_start_advertisements_result e1 BTM_BLE_ADVERT_OFF = WICED_BT_SUCCESS")
  case False
  with same have "wiced_bt_start_advertisements_result e2 BTM_BLE_ADVERT_OFF \<noteq> WICED_BT_SUCCESS"
    by (simp add: same_stack_answers_def)
  then show ?thesis by (rule reset_stop_refused)
next
  case True
  with same have p2: "wiced_bt_start_advertisements_result e2 BTM_BLE_ADVERT_OFF = WICED_BT_SUCCESS"
    by (simp add: same_stack_answers_def)
  let ?s1 = "ble_clear_bonding_info e1 s"
  have nb: "\<not> bonded (bonding_info ?s1)" using True by (rule reset_stop_accepted(1))
  show ?thesis
    using same reset_not_bonded[OF nb, of e2] reset_stop_accepted(2,3)[OF True, of s]
      reset_stop_accepted(2,3)[OF p2, of ?s1]
    by (simp add: end_state_def same_stack_answers_def)
qed

text \<open>
  Claim C8, as the program has it. When the stack gives, in the second call, the same
  answer as in the first to each of its three commands (stop advertising, clear the
  resolution list, start advertising), accepted or refused, the end state after the second
  call (bonding record in RAM, content of the store, resolution list, advertising mode) is
  the end state after the first; this holds in particular for two calls that meet one and
  the same behaviour of the stack. When the stack accepts the commands of both calls, the
  first call leaves no bond and the second logs nothing. Whatever the stack answers, a
  call that finds no bond leaves the bonding record in RAM and the content of the store
  as they are.
\<close>

theorem reset_bonding_twice:
  "(same_stack_answers e1 e2 \<longrightarrow>
      end_state (ble_clear_bonding_info e2 (ble_clear_bonding_info e1 s))
        = end_state (ble_clear_bonding_info e1 s))
   \<and> end_state (ble_clear_bonding_info e (ble_clear_bonding_info e s))
        = end_state (ble_clear_bonding_info e s)
   \<and> (stack_accepts_reset e1 \<and> stack_accepts_reset e2 \<longrightarrow>
        \<not> bonded (bonding_info (ble_clear_bonding_info e1 s))
        \<and> filter is_log (new_calls (ble_clear_bonding_info e1 s)
                            (ble_clear_bonding_info e2 (ble_clear_bonding_info e1 s))) = [])
   \<and> (\<not> bonded (bonding_info s) \<longrightarrow>
        bonding_info (ble_clear_bonding_info e s) = bonding_info s
        \<and> data_storage (ble_clear_bonding_info e s) = data_storage s)"
proof -
  have refl: "same_stack_answers e e" by (simp add: same_stack_answers_def)
  have logs: "\<not> bonded (bonding_info (ble_clear_bonding_info e1 s))
        \<and> filter is_log (new_calls (ble_clear_bonding_info e1 s)
                            (ble_clear_bonding_info e2 (ble_clear_bonding_info e1 s))) = []"
    if a: "stack_accepts_reset e1" "stack_accepts_reset e2"
  proof -
    have nb: "\<not> bonded (bonding_info (ble_clear_bonding_info e1 s))"
      using a(1) by (rule reset_accepted(1))
    with reset_accepted_not_bonded_logs[OF a(2) nb] show ?thesis by simp
  qed
  show ?thesis
    using reset_twice_same_answers[of e1 e2 s] reset_twice_same_answers[OF refl, of s]
      logs reset_not_bonded[of s e]
    by blast
qed

theorem reset_bonding_twice_witness:
  "same_stack_answers (accepting_env example_tag) (accepting_env example_tag)
   \<and> stack_accepts_reset (accepting_env example_tag)
   \<and> bonded (bonding_info bonded_state)
   \<and> end_state (ble_clear_bonding_info (accepting_env example_tag)
                  (ble_clear_bonding_info (accepting_env example_tag) bonded_state))
       = end_state (ble_clear_bonding_info (accepting_env example_tag) bonded_state)
   \<and> \<not> bonded (bonding_info (ble_clear_bonding_info (accepting_env example_tag) bonded_state))
   \<and> filter is_log (new_calls (ble_clear_bonding_info (accepting_env example_tag) bonded_state)
        (ble_clear_bonding_info (accepting_env example_tag)
           (ble_clear_bonding_info (accepting_env example_tag) bonded_state))) = []
   \<and> end_state (ble_clear_bonding_info readvertising_refused_env
                  (ble_clear_bonding_info readvertising_refused_env bonded_state))
       = end_state (ble_clear_bonding_info readvertising_refused_env bonded_state)
   \<and> \<not> bonded (bonding_info example_state)
   \<and> bonding_info (ble_clear_bonding_info readvertising_refused_env example_state)
       = bonding_info example_state
   \<and> data_storage (ble_clear_bonding_info readvertising_refused_env example_state)
       = data_storage example_state"
proof -
  have b: "bonded (bonding_info bonded_state)"
    by (simp add: bonded_state_bonding_info)
  have same: "same_stack_answers (accepting_env example_tag) (accepting_env example_tag)"
    by (simp add: same_stack_answers_def)
  show ?thesis
    using reset_bonding_twice[of "accepting_env example_tag" "accepting_env example_tag" bonded_state
              readvertising_refused_env]
          reset_bonding_twice[of "accepting_env example_tag" "accepting_env example_tag" example_state
              readvertising_refused_env]
          accepting_env_accepts_reset b same example_state_not_bonded
    by simp
qed

text \<open>
  Claim C8 as stated fails when the stack accepts the restart of advertising in the first
  call and refuses it in the second: the first call leaves no bond and advertising on; the
  second call stops advertising, is refused the restart, logs a warning and leaves
  advertising off, so the end state after two calls differs from the end state after one.
\<close>

theorem reset_bonding_twice_readvertising_refused:
  "stack_accepts_reset (accepting_env example_tag)
   \<and> \<not> bonded (bonding_info (ble_clear_bonding_info (accepting_env example_tag) example_state))
   \<and> advertising (ble_clear_bonding_info (accepting_env example_tag) example_state)
       = BTM_BLE_ADVERT_UNDIRECTED_HIGH
   \<and> advertising (ble_clear_bonding_info readvertising_refused_env
         (ble_clear_bonding_info (accepting_env example_tag) example_state))
       = BTM_BLE_ADVERT_OFF
   \<and> end_state (ble_clear_bonding_info readvertising_refused_env
         (ble_clear_bonding_info (accepting_env example_tag) example_state))
       \<noteq> end_state (ble_clear_bonding_info (accepting_env example_tag) example_state)
   \<and> filter is_log (new_calls (ble_clear_bonding_info (accepting_env example_tag) example_state)
        (ble_clear_bonding_info readvertising_refused_env
           (ble_clear_bonding_info (accepting_env example_tag) example_state)))
       = [Ifx_logger_log IFX_LOG_WARN ''Could re-enable Bluetooth advertisement'']"
proof -
  note acc = accepting_env_accepts_reset
  let ?s1 = "ble_clear_bonding_info (accepting_env example_tag) example_state"
  have nb: "\<not> bonded (bonding_info ?s1)" using acc by (rule reset_accepted(1))
  have adv1: "advertising ?s1 = BTM_BLE_ADVERT_UNDIRECTED_HIGH" using acc by (rule reset_accepted(3))
  have adv2: "advertising (ble_clear_bonding_info readvertising_refused_env ?s1) = BTM_BLE_ADVERT_OFF"
    using nb
    by (simp add: readvertising_refused_env_def accepting_env_def ble_clear_bonding_info_def
        wiced_bt_start_advertisements_def wiced_bt_ble_address_resolution_list_clear_and_disable_def
        record_call_def ifx_logger_log_def Let_def)
  have logs: "filter is_log (new_calls ?s1 (ble_clear_bonding_info readvertising_refused_env ?s1))
       = [Ifx_logger_log IFX_LOG_WARN ''Could re-enable Bluetooth advertisement'']"
    using nb
    by (simp add: readvertising_refused_env_def accepting_env_def ble_clear_bonding_info_def
        wiced_bt_start_advertisements_def wiced_bt_ble_address_resolution_list_clear_and_disable_def
        record_call_def ifx_logger_log_def new_calls_def Let_def)
  have ne: "end_state (ble_clear_bonding_info readvertising_refused_env ?s1) \<noteq> end_state ?s1"
    using adv1 adv2 by (simp add: end_state_def)
  show ?thesis using acc nb adv1 adv2 logs ne by simp
qed

section \<open>Classifying a button press\<close>

lemma duration_ms_in_range:
  fixes d :: uint32_t
  assumes "unat d * 100 < 2 ^ 32"
  shows "unat (d * PERIOD_LENGTH_MS) = unat d * 100"
proof -
  have "unat d * unat (100 :: uint32_t) < 2 ^ LENGTH(32)"
    using assms by simp
  then have "unat (d * 100) = unat d * unat (100 :: uint32_t)"
    by (simp only: unat_mult_lem)
  then show ?thesis by (simp add: PERIOD_LENGTH_MS_def)
qed

text \<open>
  As long as the duration in milliseconds fits into 32 bits (a hold of less than 42949673
  periods), a release resets the bond exactly when periods times 100 exceeds 5000, and
  sends the notification otherwise.
\<close>

lemma btn_release_in_range:
  assumes "unat (elapsed_periods s - press_start s) * 100 < 2 ^ 32"
  shows "btn_task_turn cfg e True False s =
     (if unat (elapsed_periods s - press_start s) * 100 > 5000
      then ble_clear_bonding_info e s else ble_gatt_send_hid_update cfg s)"
proof -
  have "unat ((elapsed_periods s - press_start s) * PERIOD_LENGTH_MS)
          = unat (elapsed_periods s - press_start s) * 100"
    using assms by (rule duration_ms_in_range)
  then have "((elapsed_periods s - press_start s) * PERIOD_LENGTH_MS > 5000)
            = (unat (elapsed_periods s - press_start s) * 100 > 5000)"
    by (simp add: word_less_nat_alt)
  then show ?thesis by (simp add: btn_task_turn_def Let_def)
qed

lemma btn_task_periods:
  "btn_task cfg e (replicate n Period_elapsed @ evs) s
     = btn_task cfg e evs (s\<lparr>elapsed_periods := elapsed_periods s + of_nat n\<rparr>)"
  by (induction n arbitrary: s) (simp_all add: period_elapsed_def ac_simps)

text \<open>
  Scenario C: press, 60 periods (6000 ms), release resets the bond; press, 2 periods
  (200 ms), release sends the notification.
\<close>

lemma scenario_C_long_hold:
  "btn_task cfg e (Btn_irq True # replicate 60 Period_elapsed @ [Btn_irq False]) s
     = ble_clear_bonding_info e
         (s\<lparr>press_start := elapsed_periods s, elapsed_periods := elapsed_periods s + 60\<rparr>)"
  by (simp add: btn_task_periods btn_task_turn_def PERIOD_LENGTH_MS_def Let_def)

lemma scenario_C_short_hold:
  "btn_task cfg e (Btn_irq True # replicate 2 Period_elapsed @ [Btn_irq False]) s
     = ble_gatt_send_hid_update cfg
         (s\<lparr>press_start := elapsed_periods s, elapsed_periods := elapsed_periods s + 2\<rparr>)"
  by (simp add: btn_task_periods btn_task_turn_def PERIOD_LENGTH_MS_def Let_def)

text \<open>
  Claim C7 at a hold of 42949673 periods. Periods times period length is 4294967300 ms,
  far above 5000 ms, yet the product the program computes in \<open>uint32_t\<close> is 4: the release
  is classified as a short press, \<open>ble_gatt_send_hid_update\<close> runs (without a
  subscription it does nothing) and \<open>ble_clear_bonding_info\<close> does not.
\<close>

theorem long_hold_overflow_sends_notification:
  "unat (elapsed_periods held_seven_weeks - press_start held_seven_weeks) * unat PERIOD_LENGTH_MS
     = 4294967300
   \<and> (elapsed_periods held_seven_weeks - press_start held_seven_weeks) * PERIOD_LENGTH_MS = 4
   \<and> btn_task_turn example_config (accepting_env example_tag) True False held_seven_weeks
       = ble_gatt_send_hid_update example_config held_seven_weeks
   \<and> btn_task_turn example_config (accepting_env example_tag) True False held_seven_weeks
       = held_seven_weeks
   \<and> btn_task_turn example_config (accepting_env example_tag) True False held_seven_weeks
       \<noteq> ble_clear_bonding_info (accepting_env example_tag) held_seven_weeks"
proof -
  have d: "(elapsed_periods held_seven_weeks - press_start held_seven_weeks) * PERIOD_LENGTH_MS = 4"
    by (simp add: held_seven_weeks_def PERIOD_LENGTH_MS_def)
  have t: "btn_task_turn example_config (accepting_env example_tag) True False held_seven_weeks
       = ble_gatt_send_hid_update example_config held_seven_weeks"
    by (simp add: btn_task_turn_def d Let_def)
  have n: "ble_gatt_send_hid_update example_config held_seven_weeks = held_seven_weeks"
    by (simp add: ble_gatt_send_hid_update_def held_seven_weeks_def example_state_def initial_state_def
        example_arrays_def example_config_def)
  have r: "ble_clear_bonding_info (accepting_env example_tag) held_seven_weeks \<noteq> held_seven_weeks"
    using reset_records_call[of "accepting_env example_tag" held_seven_weeks] by auto
  have u: "unat (elapsed_periods held_seven_weeks - press_start held_seven_weeks)
             * unat PERIOD_LENGTH_MS = 4294967300"
    by (simp add: held_seven_weeks_def PERIOD_LENGTH_MS_def)
  show ?thesis using d t n r u by simp
qed

end
